theory Spec2Isabelle
  imports Complex_Main "HOL-Library.Sublist" "HOL-Library.Log_Nat"
begin

section \<open>Asset temperature sync: values, identifiers, payloads, reconciliation\<close>

text \<open>
  A shallow embedding of \<^verbatim>\<open>sync_asset_temperature_to_devices.py\<close>: the DevEUI
  normaliser and extractor, the payload codec, the downlink sender and the per-asset,
  per-device loop of \<^verbatim>\<open>main\<close>.

  Scope of the embedding.
  \<^item> Attribute values and registry objects are JSON values as Python's \<^verbatim>\<open>json\<close>
    module yields them (\<open>pyval\<close>). A Python float is its exact rational value, or an
    infinity, or NaN.
  \<^item> Strings are lists of characters with code points below 256. \<^verbatim>\<open>strip\<close> has
    Python's white space in that range; \<^verbatim>\<open>upper\<close> and \<^verbatim>\<open>lower\<close> act on the
    ASCII letters and leave every other character alone (Python maps those to
    characters that are no hexadecimal digit, no separator and no letter of a key or
    prefix, so the normaliser and the key test give the same results).
  \<^item> A dictionary is an association list with distinct keys, read with \<open>map_of\<close>.
  \<^item> Three built-ins are parameters (\<open>builtins\<close>): \<^verbatim>\<open>str()\<close> of a value that is
    not a string, \<^verbatim>\<open>float()\<close> of a string, and the exception a dictionary raises
    when it is sliced.
  \<^item> Replies of the registry and of the downlink transport are inputs; every exception
    the source does not catch is a result \<open>Inl\<close>.
  \<^item> The text \<^verbatim>\<open>log_print\<close> writes and the time stamp of a downlink are not
    modelled. A table row of the log slices \<^verbatim>\<open>asset_name\<close> and \<^verbatim>\<open>device_name\<close>,
    which raises when a name is not a string: every row is a step of the model
    (\<open>log_row\<close>), at the place \<^verbatim>\<open>main\<close> has it.
\<close>

subsection \<open>Python values\<close>

datatype pyfloat = Finite rat | Infinity bool | NaN

datatype pyval =
    PNone
  | PBool bool
  | PInt int
  | PFloat pyfloat
  | PStr string
  | PList "pyval list"
  | PDict "(string \<times> pyval) list"

datatype exn = AttributeError | KeyError | OverflowError | TypeError | ValueError

record builtins =
  str_of :: "pyval \<Rightarrow> string"
  float_of_str :: "string \<Rightarrow> pyfloat option"
  slice_of_dict :: exn

text \<open>Truthiness (\<^verbatim>\<open>if x\<close>, \<^verbatim>\<open>not x\<close>).\<close>

fun truthy :: "pyval \<Rightarrow> bool" where
  "truthy PNone = False"
| "truthy (PBool b) = b"
| "truthy (PInt i) = (i \<noteq> 0)"
| "truthy (PFloat (Finite r)) = (r \<noteq> 0)"
| "truthy (PFloat (Infinity s)) = True"
| "truthy (PFloat NaN) = True"
| "truthy (PStr s) = (s \<noteq> [])"
| "truthy (PList xs) = (xs \<noteq> [])"
| "truthy (PDict kvs) = (kvs \<noteq> [])"

text \<open>
  Equality \<^verbatim>\<open>==\<close>. Booleans, integers and floats compare by their exact numeric value
  (\<^verbatim>\<open>True == 1\<close>, \<^verbatim>\<open>20 == 20.0\<close>), NaN equals nothing, lists compare element by
  element, dictionaries key by key.
\<close>

fun float_eq :: "pyfloat \<Rightarrow> pyfloat \<Rightarrow> bool" where
  "float_eq (Finite a) (Finite b) = (a = b)"
| "float_eq (Infinity s) (Infinity t) = (s = t)"
| "float_eq _ _ = False"

fun num_eq :: "pyfloat \<Rightarrow> pyval \<Rightarrow> bool" where
  "num_eq x (PBool b) = float_eq x (Finite (if b then 1 else 0))"
| "num_eq x (PInt i) = float_eq x (Finite (of_int i))"
| "num_eq x (PFloat y) = float_eq x y"
| "num_eq x _ = False"

primrec py_eq :: "pyval \<Rightarrow> pyval \<Rightarrow> bool" where
  "py_eq PNone b = (b = PNone)"
| "py_eq (PBool x) b = num_eq (Finite (if x then 1 else 0)) b"
| "py_eq (PInt i) b = num_eq (Finite (of_int i)) b"
| "py_eq (PFloat x) b = num_eq x b"
| "py_eq (PStr s) b = (b = PStr s)"
| "py_eq (PList xs) b =
     (case b of PList ys \<Rightarrow> list_all2 (\<lambda>p y. p y) (map py_eq xs) ys | _ \<Rightarrow> False)"
| "py_eq (PDict kvs) b =
     (case b of
        PDict kws \<Rightarrow>
          length kvs = length kws \<and>
          list_all (\<lambda>(k, p). case map_of kws k of None \<Rightarrow> False | Some w \<Rightarrow> p w)
            (map (map_prod id py_eq) kvs)
      | _ \<Rightarrow> False)"

subsection \<open>String methods\<close>

definition is_space :: "char \<Rightarrow> bool" where
  "is_space c = ((of_char c :: nat) \<in> {9, 10, 11, 12, 13, 28, 29, 30, 31, 32, 133, 160})"

definition strip :: "string \<Rightarrow> string" where
  "strip s = rev (dropWhile is_space (rev (dropWhile is_space s)))"

definition upper_char :: "char \<Rightarrow> char" where
  "upper_char c =
     (let n = (of_char c :: nat) in if 97 \<le> n \<and> n \<le> 122 then char_of (n - 32) else c)"

definition lower_char :: "char \<Rightarrow> char" where
  "lower_char c =
     (let n = (of_char c :: nat) in if 65 \<le> n \<and> n \<le> 90 then char_of (n + 32) else c)"

definition upper :: "string \<Rightarrow> string" where
  "upper s = map upper_char s"

definition lower :: "string \<Rightarrow> string" where
  "lower s = map lower_char s"

text \<open>
  \<^verbatim>\<open>s.replace(old, '')\<close> for a non-empty \<open>old\<close>: the occurrences are found from the
  left and do not overlap; what a removal brings together is not searched again.
\<close>

function replace_empty :: "string \<Rightarrow> string \<Rightarrow> string" where
  "replace_empty old [] = []"
| "replace_empty old (c # cs) =
     (if old \<noteq> [] \<and> prefix old (c # cs)
      then replace_empty old (drop (length old) (c # cs))
      else c # replace_empty old cs)"
  by pat_completeness auto
termination
  by (relation "measure (\<lambda>(old, s). length s)") auto

subsection \<open>DevEUI normaliser\<close>

definition py_str :: "builtins \<Rightarrow> pyval \<Rightarrow> string" where
  "py_str py v = (case v of PStr s \<Rightarrow> s | _ \<Rightarrow> str_of py v)"

definition is_hex16 :: "string \<Rightarrow> bool" where
  "is_hex16 s = (length s = 16 \<and> list_all (\<lambda>c. c \<in> set ''0123456789ABCDEF'') s)"

definition normalize_deveui :: "builtins \<Rightarrow> pyval \<Rightarrow> string option" where
  "normalize_deveui py deveui =
     (if \<not> truthy deveui then None
      else
        let d1 = upper (strip (py_str py deveui));
            d2 = replace_empty ''eui_'' (replace_empty ''EUI_''
                   (replace_empty ''eui-'' (replace_empty ''EUI-'' d1)));
            d3 = replace_empty '':'' (replace_empty ''-'' (replace_empty '' '' d2))
        in if is_hex16 d3 then Some d3 else None)"

subsection \<open>DevEUI extraction\<close>

text \<open>
  The reply to the attribute request of \<^verbatim>\<open>extract_deveui\<close>: the request raised, or it
  returned a status code and a body, \<open>None\<close> when the body is not JSON
  (\<^verbatim>\<open>response.json()\<close> raises).
\<close>

datatype reply = RequestFailed | Reply int "pyval option"

type_synonym pydict = "(string \<times> pyval) list"

definition dict_get :: "pydict \<Rightarrow> string \<Rightarrow> pyval \<Rightarrow> pyval" where
  "dict_get d k dflt = (case map_of d k of None \<Rightarrow> dflt | Some v \<Rightarrow> v)"

text \<open>\<^verbatim>\<open>x.get('id', {}).get('id', '')\<close>: the inner \<^verbatim>\<open>get\<close> exists on a dictionary only.\<close>

definition entity_id :: "pydict \<Rightarrow> exn + pyval" where
  "entity_id d =
     (case dict_get d ''id'' (PDict []) of
        PDict m \<Rightarrow> Inr (dict_get m ''id'' (PStr []))
      | _ \<Rightarrow> Inl AttributeError)"

text \<open>\<^verbatim>\<open>device.get(k, '').strip()\<close>: \<^verbatim>\<open>strip\<close> exists on a string only.\<close>

definition get_stripped :: "pydict \<Rightarrow> string \<Rightarrow> exn + string" where
  "get_stripped d k =
     (case dict_get d k (PStr []) of PStr s \<Rightarrow> Inr (strip s) | _ \<Rightarrow> Inl AttributeError)"

text \<open>
  The loop over the attribute list, inside \<^verbatim>\<open>try\<close> with a bare \<^verbatim>\<open>except: pass\<close>:
  \<open>Some (Some e)\<close> is \<^verbatim>\<open>return e\<close>, \<open>Some None\<close> is the end of the list, \<open>None\<close>
  is an exception (\<^verbatim>\<open>attr['key'].lower()\<close> on a key that is not a string), which ends
  the loop.
\<close>

fun scan_attrs :: "builtins \<Rightarrow> pyval list \<Rightarrow> string option option" where
  "scan_attrs py [] = Some None"
| "scan_attrs py (attr # rest) =
     (case attr of
        PDict m \<Rightarrow>
          (case map_of m ''key'' of
             None \<Rightarrow> scan_attrs py rest
           | Some (PStr k) \<Rightarrow>
               if lower k \<in> set [''deveui'', ''eui'']
               then (case normalize_deveui py (dict_get m ''value'' PNone) of
                       Some e \<Rightarrow> Some (Some e)
                     | None \<Rightarrow> scan_attrs py rest)
               else scan_attrs py rest
           | Some _ \<Rightarrow> None)
      | _ \<Rightarrow> scan_attrs py rest)"

definition from_attributes :: "builtins \<Rightarrow> reply \<Rightarrow> string option" where
  "from_attributes py r =
     (case r of
        Reply code (Some (PList all_attrs)) \<Rightarrow>
          if code = 200
          then (case scan_attrs py all_attrs of Some res \<Rightarrow> res | None \<Rightarrow> None)
          else None
      | _ \<Rightarrow> None)"

definition additional_info_keys :: "string list" where
  "additional_info_keys = [''devEUI'', ''devEui'', ''DevEUI'', ''DevEui'', ''deveui'', ''eui'']"

fun scan_info :: "builtins \<Rightarrow> pydict \<Rightarrow> string list \<Rightarrow> string option" where
  "scan_info py info [] = None"
| "scan_info py info (k # ks) =
     (case map_of info k of
        None \<Rightarrow> scan_info py info ks
      | Some v \<Rightarrow>
          (case normalize_deveui py v of
             Some e \<Rightarrow> Some e
           | None \<Rightarrow> scan_info py info ks))"

definition from_additional_info :: "builtins \<Rightarrow> pydict \<Rightarrow> string option" where
  "from_additional_info py device =
     (case dict_get device ''additionalInfo'' (PDict []) of
        PDict info \<Rightarrow> scan_info py info additional_info_keys
      | _ \<Rightarrow> None)"

definition from_field :: "builtins \<Rightarrow> string \<Rightarrow> string option" where
  "from_field py s = (if s \<noteq> [] then normalize_deveui py (PStr s) else None)"

definition extract_deveui :: "builtins \<Rightarrow> reply \<Rightarrow> pydict \<Rightarrow> exn + string option" where
  "extract_deveui py r device =
     (case entity_id device of
        Inl e \<Rightarrow> Inl e
      | Inr device_id \<Rightarrow>
     (case from_attributes py r of
        Some e \<Rightarrow> Inr (Some e)
      | None \<Rightarrow>
     (case get_stripped device ''name'' of
        Inl e \<Rightarrow> Inl e
      | Inr device_name \<Rightarrow>
     (case from_field py device_name of
        Some e \<Rightarrow> Inr (Some e)
      | None \<Rightarrow>
     (case get_stripped device ''label'' of
        Inl e \<Rightarrow> Inl e
      | Inr device_label \<Rightarrow>
     (case from_field py device_label of
        Some e \<Rightarrow> Inr (Some e)
      | None \<Rightarrow> Inr (from_additional_info py device)))))))"

subsection \<open>Payload codec\<close>

text \<open>
  \<^verbatim>\<open>float(x)\<close>. An integer is rounded to the nearest double, ties to even, and
  \<^verbatim>\<open>OverflowError\<close> is raised from \<open>2 ^ 1024\<close> on; a string is parsed by the built-in.
\<close>

definition int_to_float :: "int \<Rightarrow> exn + pyfloat" where
  "int_to_float i =
     (let a = \<bar>i\<bar> in
      if a < 2 ^ 53 then Inr (Finite (of_int i))
      else
        let sh = nat (bitlen a - 53);
            q = a div 2 ^ sh;
            r = a mod 2 ^ sh;
            h = 2 ^ (sh - 1);
            q' = (if h < r \<or> (r = h \<and> odd q) then q + 1 else q);
            v = q' * 2 ^ sh
        in if 2 ^ 1024 \<le> v then Inl OverflowError else Inr (Finite (of_int (sgn i * v))))"

fun py_float :: "builtins \<Rightarrow> pyval \<Rightarrow> exn + pyfloat" where
  "py_float py PNone = Inl TypeError"
| "py_float py (PBool b) = Inr (Finite (if b then 1 else 0))"
| "py_float py (PInt i) = int_to_float i"
| "py_float py (PFloat x) = Inr x"
| "py_float py (PStr s) =
     (case float_of_str py s of None \<Rightarrow> Inl ValueError | Some x \<Rightarrow> Inr x)"
| "py_float py (PList xs) = Inl TypeError"
| "py_float py (PDict kvs) = Inl TypeError"

text \<open>\<^verbatim>\<open>x * 2\<close> on a float: exact, or an infinity from \<open>2 ^ 1024\<close> on.\<close>

fun times2 :: "pyfloat \<Rightarrow> pyfloat" where
  "times2 (Finite r) = (if 2 ^ 1024 \<le> \<bar>2 * r\<bar> then Infinity (0 < r) else Finite (2 * r))"
| "times2 (Infinity s) = Infinity s"
| "times2 NaN = NaN"

text \<open>\<^verbatim>\<open>int(x)\<close> on a float truncates towards zero.\<close>

fun py_int :: "pyfloat \<Rightarrow> exn + int" where
  "py_int (Finite r) = Inr (if 0 \<le> r then \<lfloor>r\<rfloor> else \<lceil>r\<rceil>)"
| "py_int (Infinity s) = Inl OverflowError"
| "py_int NaN = Inl ValueError"

definition hex_digit :: "nat \<Rightarrow> char" where
  "hex_digit d = ''0123456789ABCDEF'' ! (d mod 16)"

function hex_digits :: "nat \<Rightarrow> string" where
  "hex_digits n = (if n < 16 then [hex_digit n] else hex_digits (n div 16) @ [hex_digit (n mod 16)])"
  by pat_completeness auto
termination
  by (relation "measure id") auto

text \<open>
  \<^verbatim>\<open>format(n, '02X')\<close>: upper-case hexadecimal digits, filled with zeros to a width of
  2, the sign of a negative number counting in the width.
\<close>

definition format_02X :: "int \<Rightarrow> string" where
  "format_02X n =
     (if n < 0 then CHR ''-'' # hex_digits (nat (- n))
      else let ds = hex_digits (nat n) in if length ds < 2 then CHR ''0'' # ds else ds)"

definition temperature_to_hex_payload :: "builtins \<Rightarrow> pyval \<Rightarrow> bool \<Rightarrow> exn + string option" where
  "temperature_to_hex_payload py temperature is_min =
     (if temperature = PNone then Inr None
      else
        let res =
          (case py_float py temperature of
             Inl e \<Rightarrow> Inl e
           | Inr temp_value \<Rightarrow>
               (case py_int (times2 temp_value) of
                  Inl e \<Rightarrow> Inl e
                | Inr temp_hex \<Rightarrow>
                    Inr ((if is_min then ''3E'' else ''40'') @ format_02X temp_hex)))
        in case res of
             Inr p \<Rightarrow> Inr (Some p)
           | Inl e \<Rightarrow> if e = ValueError \<or> e = TypeError then Inr None else Inl e)"

definition get_query_payload :: "bool \<Rightarrow> string" where
  "get_query_payload is_min = (if is_min then ''BD'' else ''BF'')"

definition combine_query_payloads :: string where
  "combine_query_payloads = ''BDBF''"

text \<open>\<^verbatim>\<open>if payload:\<close> on a string or \<^verbatim>\<open>None\<close>.\<close>

fun truthy_str :: "string option \<Rightarrow> bool" where
  "truthy_str None = False"
| "truthy_str (Some s) = (s \<noteq> [])"

definition combine_temperature_payloads :: "builtins \<Rightarrow> pyval \<Rightarrow> pyval \<Rightarrow> exn + string option" where
  "combine_temperature_payloads py min_temp max_temp =
     (case temperature_to_hex_payload py min_temp True of
        Inl e \<Rightarrow> Inl e
      | Inr min_payload \<Rightarrow>
     (case temperature_to_hex_payload py max_temp False of
        Inl e \<Rightarrow> Inl e
      | Inr max_payload \<Rightarrow>
          if truthy_str min_payload \<and> truthy_str max_payload
          then Inr (Some (the min_payload @ the max_payload))
          else Inr None))"

subsection \<open>Downlink sender\<close>

text \<open>
  A downlink is the DevEUI, the FPort and the hexadecimal payload of the JSON document
  that \<^verbatim>\<open>send_downlink_to_agility\<close> builds. The transport (\<^verbatim>\<open>requests.post\<close>) answers
  with a status code or raises a \<^verbatim>\<open>RequestException\<close>; its answer may depend on the
  requests posted before.
\<close>

type_synonym downlink = "string \<times> int \<times> string"

datatype response = Status int | RequestException

record world =
  AGILITY_URL :: "string option"
  requests_post :: "downlink list \<Rightarrow> downlink \<Rightarrow> response"

record args =
  dry_run :: bool
  fport :: int
  limit :: "int option"

text \<open>
  The counters of \<^verbatim>\<open>stats\<close>, with the calls of \<^verbatim>\<open>send_downlink_to_agility\<close>
  (\<open>calls\<close>) and the requests handed to the transport (\<open>posts\<close>), both in order.
\<close>

record stats =
  assets_processed :: nat
  devices_processed :: nat
  min_temp_sent :: nat
  max_temp_sent :: nat
  combined_sent :: nat
  min_query_sent :: nat
  max_query_sent :: nat
  skipped_no_deveui :: nat
  skipped_no_asset_temp :: nat
  skipped_empty_min_temp :: nat
  skipped_empty_max_temp :: nat
  errors :: nat
  calls :: "downlink list"
  posts :: "downlink list"

definition configured :: "world \<Rightarrow> bool" where
  "configured w = (case AGILITY_URL w of None \<Rightarrow> False | Some u \<Rightarrow> u \<noteq> [])"

definition send_downlink_to_agility ::
  "world \<Rightarrow> string \<Rightarrow> int \<Rightarrow> string \<Rightarrow> bool \<Rightarrow> stats \<Rightarrow> bool \<times> stats" where
  "send_downlink_to_agility w deveui fp payload_hex dry st =
     (let st1 = st\<lparr>calls := calls st @ [(deveui, fp, payload_hex)]\<rparr> in
      if \<not> configured w then (False, st1)
      else if dry then (True, st1)
      else
        let st2 = st1\<lparr>posts := posts st1 @ [(deveui, fp, payload_hex)]\<rparr> in
        (case requests_post w (posts st1) (deveui, fp, payload_hex) of
           Status code \<Rightarrow> (code \<in> set [200, 201, 202], st2)
         | RequestException \<Rightarrow> (False, st2)))"

subsection \<open>Decision for one device\<close>

text \<open>Lines 709 to 713: an empty string and zero count as no value.\<close>

definition known :: "pyval \<Rightarrow> pyval" where
  "known v = (if py_eq v (PStr []) \<or> py_eq v (PInt 0) then PNone else v)"

definition needs :: "pyval \<Rightarrow> pyval \<Rightarrow> bool" where
  "needs asset_temp device_temp =
     (asset_temp \<noteq> PNone \<and> (device_temp = PNone \<or> \<not> py_eq device_temp asset_temp))"

text \<open>
  A row of the log table (lines 700, 717, 721, 750, 757, 768, 775 and the rows of the
  four single-field blocks): \<^verbatim>\<open>f"{asset_name[:29]:<30} {device_name[:29]:<30} ..."\<close>, the
  asset name first. A string is sliced and padded. Every other value raises: \<^verbatim>\<open>None\<close>,
  a boolean and a number cannot be sliced (\<^verbatim>\<open>TypeError\<close>), a list is sliced and then
  refuses the format \<^verbatim>\<open><30\<close> (\<^verbatim>\<open>TypeError\<close>), a dictionary raises \<^verbatim>\<open>TypeError\<close>
  before Python 3.12 and \<^verbatim>\<open>KeyError\<close> from 3.12 on (\<open>slice_of_dict\<close>). The other fields
  of a row are strings or are formatted without a format specification. The result is
  the exception, or \<open>None\<close> when the row is written.
\<close>

fun row_error :: "builtins \<Rightarrow> pyval \<Rightarrow> exn option" where
  "row_error py (PStr s) = None"
| "row_error py (PDict kvs) = Some (slice_of_dict py)"
| "row_error py v = Some TypeError"

definition log_row :: "builtins \<Rightarrow> pyval \<Rightarrow> pyval \<Rightarrow> exn option" where
  "log_row py asset_name device_name =
     (case row_error py asset_name of
        Some e \<Rightarrow> Some e
      | None \<Rightarrow> row_error py device_name)"

text \<open>
  Both known values are missing (lines 746 to 758): the row is written before the send,
  then one frame with both queries. The counters move only when the send succeeds; a
  send that fails writes a second row.
\<close>

definition send_combined_query ::
  "builtins \<Rightarrow> world \<Rightarrow> args \<Rightarrow> pyval \<Rightarrow> pyval \<Rightarrow> string \<Rightarrow> stats \<Rightarrow> exn + stats" where
  "send_combined_query py w a asset_name device_name deveui st =
     (let payload = combine_query_payloads in
      case log_row py asset_name device_name of
        Some e \<Rightarrow> Inl e
      | None \<Rightarrow>
          let (success, st1) =
                send_downlink_to_agility w deveui (fport a) payload (dry_run a) st
          in if success
             then Inr (st1\<lparr>min_query_sent := min_query_sent st1 + 1,
                           max_query_sent := max_query_sent st1 + 1,
                           combined_sent := combined_sent st1 + 1\<rparr>)
             else
               (case log_row py asset_name device_name of
                  Some e \<Rightarrow> Inl e
                | None \<Rightarrow> Inr (st1\<lparr>errors := errors st1 + 1\<rparr>)))"

text \<open>
  Both known values are there (lines 760 to 776): one frame, both setpoints followed by
  both queries, its row written before the send; nothing is written, sent or counted
  when the payload is not built.
\<close>

definition send_combined_set ::
  "builtins \<Rightarrow> world \<Rightarrow> args \<Rightarrow> pyval \<Rightarrow> pyval \<Rightarrow> string \<Rightarrow> pyval \<Rightarrow> pyval \<Rightarrow> stats \<Rightarrow>
   exn + stats" where
  "send_combined_set py w a asset_name device_name deveui asset_min_temp asset_max_temp st =
     (case combine_temperature_payloads py asset_min_temp asset_max_temp of
        Inl e \<Rightarrow> Inl e
      | Inr payload \<Rightarrow>
          if truthy_str payload
          then
            let query_payload = combine_query_payloads in
            (case log_row py asset_name device_name of
               Some e \<Rightarrow> Inl e
             | None \<Rightarrow>
                 let (success, st1) =
                       send_downlink_to_agility w deveui (fport a) (the payload @ query_payload)
                         (dry_run a) st
                 in if success
                    then Inr (st1\<lparr>min_temp_sent := min_temp_sent st1 + 1,
                                  max_temp_sent := max_temp_sent st1 + 1,
                                  combined_sent := combined_sent st1 + 1\<rparr>)
                    else
                      (case log_row py asset_name device_name of
                         Some e \<Rightarrow> Inl e
                       | None \<Rightarrow> Inr (st1\<lparr>errors := errors st1 + 1\<rparr>)))
          else Inr st)"

text \<open>
  One field on its own. \<^verbatim>\<open>main\<close> has this block four times (lines 780 to 798 and 823
  to 841 for the minimum, 801 to 819 and 844 to 862 for the maximum); the copies differ
  in the field only. The counter of the field moves before the send, and also when no
  payload is built. The row is written after the send, whatever the send reports; the
  row of a send that fails comes before \<open>errors\<close> moves.
\<close>

definition count_query :: "bool \<Rightarrow> stats \<Rightarrow> stats" where
  "count_query is_min st =
     (if is_min then st\<lparr>min_query_sent := min_query_sent st + 1\<rparr>
      else st\<lparr>max_query_sent := max_query_sent st + 1\<rparr>)"

definition count_temp :: "bool \<Rightarrow> stats \<Rightarrow> stats" where
  "count_temp is_min st =
     (if is_min then st\<lparr>min_temp_sent := min_temp_sent st + 1\<rparr>
      else st\<lparr>max_temp_sent := max_temp_sent st + 1\<rparr>)"

definition send_payload ::
  "builtins \<Rightarrow> world \<Rightarrow> args \<Rightarrow> pyval \<Rightarrow> pyval \<Rightarrow> string \<Rightarrow> string option \<Rightarrow> stats \<Rightarrow>
   exn + stats" where
  "send_payload py w a asset_name device_name deveui payload st =
     (if truthy_str payload
      then
        let (success, st1) =
              send_downlink_to_agility w deveui (fport a) (the payload) (dry_run a) st
        in (case log_row py asset_name device_name of
              Some e \<Rightarrow> Inl e
            | None \<Rightarrow> Inr (if success then st1 else st1\<lparr>errors := errors st1 + 1\<rparr>))
      else Inr st)"

definition send_single ::
  "builtins \<Rightarrow> world \<Rightarrow> args \<Rightarrow> pyval \<Rightarrow> pyval \<Rightarrow> string \<Rightarrow> bool \<Rightarrow> pyval \<Rightarrow> bool \<Rightarrow> stats \<Rightarrow>
   exn + stats" where
  "send_single py w a asset_name device_name deveui is_min asset_temp is_query st =
     (if is_query
      then send_payload py w a asset_name device_name deveui (Some (get_query_payload is_min))
             (count_query is_min st)
      else
        (case temperature_to_hex_payload py asset_temp is_min of
           Inl e \<Rightarrow> Inl e
         | Inr payload \<Rightarrow>
             send_payload py w a asset_name device_name deveui payload (count_temp is_min st)))"

definition send_each ::
  "builtins \<Rightarrow> world \<Rightarrow> args \<Rightarrow> pyval \<Rightarrow> pyval \<Rightarrow> string \<Rightarrow> pyval \<Rightarrow> pyval \<Rightarrow>
   bool \<Rightarrow> bool \<Rightarrow> bool \<Rightarrow> bool \<Rightarrow> stats \<Rightarrow> exn + stats" where
  "send_each py w a asset_name device_name deveui asset_min_temp asset_max_temp
     needs_min needs_max min_is_query max_is_query st =
     (case (if needs_min
            then send_single py w a asset_name device_name deveui True asset_min_temp
                   min_is_query st
            else Inr st) of
        Inl e \<Rightarrow> Inl e
      | Inr st1 \<Rightarrow>
          if needs_max
          then send_single py w a asset_name device_name deveui False asset_max_temp
                 max_is_query st1
          else Inr st1)"

text \<open>
  Lines 709 to 862, for a device whose DevEUI is known: the attribute values of the
  device are \<open>dmin\<close> and \<open>dmax\<close>. A desired value that is missing writes a row and is
  counted (lines 716 to 722).
\<close>

definition reconcile ::
  "builtins \<Rightarrow> world \<Rightarrow> args \<Rightarrow> pyval \<Rightarrow> pyval \<Rightarrow> string \<Rightarrow> pyval \<Rightarrow> pyval \<Rightarrow> pyval \<Rightarrow> pyval \<Rightarrow>
   stats \<Rightarrow> exn + stats" where
  "reconcile py w a asset_name device_name deveui asset_min_temp asset_max_temp dmin dmax st =
     (let device_min_temp = known dmin;
          device_max_temp = known dmax
      in
      case (if asset_min_temp = PNone
            then (case log_row py asset_name device_name of
                    Some e \<Rightarrow> Inl e
                  | None \<Rightarrow>
                      Inr (st\<lparr>skipped_empty_min_temp := skipped_empty_min_temp st + 1\<rparr>))
            else Inr st) of
        Inl e \<Rightarrow> Inl e
      | Inr st1 \<Rightarrow>
      case (if asset_max_temp = PNone
            then (case log_row py asset_name device_name of
                    Some e \<Rightarrow> Inl e
                  | None \<Rightarrow>
                      Inr (st1\<lparr>skipped_empty_max_temp := skipped_empty_max_temp st1 + 1\<rparr>))
            else Inr st1) of
        Inl e \<Rightarrow> Inl e
      | Inr st2 \<Rightarrow>
      if asset_min_temp = PNone \<and> asset_max_temp = PNone then Inr st2
      else
        let needs_min = needs asset_min_temp device_min_temp;
            needs_max = needs asset_max_temp device_max_temp;
            min_is_query = (needs_min \<and> device_min_temp = PNone);
            max_is_query = (needs_max \<and> device_max_temp = PNone)
        in
        if needs_min \<and> needs_max then
          let device_min_is_none = (device_min_temp = PNone);
              device_max_is_none = (device_max_temp = PNone)
          in
          if device_min_is_none \<and> device_max_is_none
          then send_combined_query py w a asset_name device_name deveui st2
          else if \<not> device_min_is_none \<and> \<not> device_max_is_none
          then send_combined_set py w a asset_name device_name deveui
                 asset_min_temp asset_max_temp st2
          else send_each py w a asset_name device_name deveui asset_min_temp asset_max_temp
                 needs_min needs_max min_is_query max_is_query st2
        else send_each py w a asset_name device_name deveui asset_min_temp asset_max_temp
               needs_min needs_max min_is_query max_is_query st2)"

subsection \<open>The loop over assets and devices\<close>

text \<open>
  A device as the loop meets it: the device object, the reply to the attribute request
  of \<^verbatim>\<open>extract_deveui\<close>, and the two values \<^verbatim>\<open>get_device_attributes\<close> returns. An asset:
  the asset object, the two values \<^verbatim>\<open>get_asset_attributes\<close> returns and the list
  \<^verbatim>\<open>get_asset_devices\<close> returns.
\<close>

record device_in =
  device :: pydict
  attributes_reply :: reply
  manu_temp_min :: pyval
  manu_temp_max :: pyval

record asset_in =
  asset :: pydict
  minTemp :: pyval
  maxTemp :: pyval
  devices :: "device_in list"

text \<open>
  Lines 690 to 862: one device, after the limit has been checked. The name is whatever
  the device object has under \<^verbatim>\<open>name\<close> (line 691); a device without a DevEUI writes a
  row and is counted (lines 699 to 702).
\<close>

definition process_device ::
  "builtins \<Rightarrow> world \<Rightarrow> args \<Rightarrow> pyval \<Rightarrow> pyval \<Rightarrow> pyval \<Rightarrow> device_in \<Rightarrow> stats \<Rightarrow> exn + stats" where
  "process_device py w a asset_name asset_min_temp asset_max_temp d st =
     (case entity_id (device d) of
        Inl e \<Rightarrow> Inl e
      | Inr device_id \<Rightarrow>
          let device_name = dict_get (device d) ''name'' (PStr ''Unbekannt'');
              st1 = st\<lparr>devices_processed := devices_processed st + 1\<rparr>
          in
          (case extract_deveui py (attributes_reply d) (device d) of
             Inl e \<Rightarrow> Inl e
           | Inr None \<Rightarrow>
               (case log_row py asset_name device_name of
                  Some e \<Rightarrow> Inl e
                | None \<Rightarrow> Inr (st1\<lparr>skipped_no_deveui := skipped_no_deveui st1 + 1\<rparr>))
           | Inr (Some deveui) \<Rightarrow>
               reconcile py w a asset_name device_name deveui asset_min_temp asset_max_temp
                 (manu_temp_min d) (manu_temp_max d) st1))"

text \<open>\<^verbatim>\<open>args.limit and devices_processed_count >= args.limit\<close>.\<close>

definition limit_hit :: "args \<Rightarrow> nat \<Rightarrow> bool" where
  "limit_hit a devices_processed_count =
     (case limit a of
        None \<Rightarrow> False
      | Some n \<Rightarrow> n \<noteq> 0 \<and> n \<le> int devices_processed_count)"

text \<open>
  The inner loop (lines 683 to 862). The result is \<open>limit_reached\<close>, the count of
  devices and the counters.
\<close>

fun devices_loop ::
  "builtins \<Rightarrow> world \<Rightarrow> args \<Rightarrow> pyval \<Rightarrow> pyval \<Rightarrow> pyval \<Rightarrow> device_in list \<Rightarrow> nat \<Rightarrow> stats \<Rightarrow>
   exn + (bool \<times> nat \<times> stats)" where
  "devices_loop py w a asset_name tmin tmax [] n st = Inr (False, n, st)"
| "devices_loop py w a asset_name tmin tmax (d # ds) n st =
     (if limit_hit a n then Inr (True, n, st)
      else
        (case process_device py w a asset_name tmin tmax d st of
           Inl e \<Rightarrow> Inl e
         | Inr st1 \<Rightarrow> devices_loop py w a asset_name tmin tmax ds (n + 1) st1))"

text \<open>
  The outer loop (lines 656 to 862). The name is whatever the asset object has under
  \<^verbatim>\<open>name\<close> (line 662).
\<close>

fun assets_loop ::
  "builtins \<Rightarrow> world \<Rightarrow> args \<Rightarrow> asset_in list \<Rightarrow> bool \<Rightarrow> nat \<Rightarrow> stats \<Rightarrow> exn + stats" where
  "assets_loop py w a [] limit_reached n st = Inr st"
| "assets_loop py w a (x # xs) limit_reached n st =
     (if limit_reached then Inr st
      else
        (case entity_id (asset x) of
           Inl e \<Rightarrow> Inl e
         | Inr asset_id \<Rightarrow>
             let asset_name = dict_get (asset x) ''name'' (PStr ''Unbekannt'') in
             if minTemp x = PNone \<and> maxTemp x = PNone
             then assets_loop py w a xs limit_reached n
                    (st\<lparr>skipped_no_asset_temp := skipped_no_asset_temp st + 1\<rparr>)
             else
               let st1 = st\<lparr>assets_processed := assets_processed st + 1\<rparr> in
               if devices x = [] then assets_loop py w a xs limit_reached n st1
               else
                 (case devices_loop py w a asset_name (minTemp x) (maxTemp x) (devices x) n st1 of
                    Inl e \<Rightarrow> Inl e
                  | Inr (reached, n1, st2) \<Rightarrow> assets_loop py w a xs reached n1 st2)))"

definition stats0 :: stats where
  "stats0 =
     \<lparr>assets_processed = 0, devices_processed = 0, min_temp_sent = 0, max_temp_sent = 0,
      combined_sent = 0, min_query_sent = 0, max_query_sent = 0, skipped_no_deveui = 0,
      skipped_no_asset_temp = 0, skipped_empty_min_temp = 0, skipped_empty_max_temp = 0,
      errors = 0, calls = [], posts = []\<rparr>"

text \<open>
  The loops of \<^verbatim>\<open>main\<close> from the fresh counters on (lines 632 to 862). \<^verbatim>\<open>main\<close>
  leaves before them when the endpoint or the credentials are missing, when the login
  fails and when the customer has no assets.
\<close>

definition run :: "builtins \<Rightarrow> world \<Rightarrow> args \<Rightarrow> asset_in list \<Rightarrow> exn + stats" where
  "run py w a assets = assets_loop py w a assets False 0 stats0"

subsection \<open>Sample inputs\<close>

definition no_builtins :: builtins where
  "no_builtins =
     \<lparr>str_of = (\<lambda>v. []), float_of_str = (\<lambda>s. None), slice_of_dict = TypeError\<rparr>"

definition world_status :: "int \<Rightarrow> world" where
  "world_status code = \<lparr>AGILITY_URL = Some ''https://agility.example/downlink'',
                         requests_post = (\<lambda>before d. Status code)\<rparr>"

definition args_live :: "int option \<Rightarrow> args" where
  "args_live n = \<lparr>dry_run = False, fport = 10, limit = n\<rparr>"

subsection \<open>Reading a payload back\<close>

text \<open>The value of a string of upper-case hexadecimal digits.\<close>

definition digit_value :: "char \<Rightarrow> nat" where
  "digit_value c = length (takeWhile (\<lambda>d. d \<noteq> c) ''0123456789ABCDEF'')"

definition hex_value :: "string \<Rightarrow> nat" where
  "hex_value s = foldl (\<lambda>acc c. 16 * acc + digit_value c) 0 s"

subsection \<open>Derived notions\<close>

text \<open>
  Whether a send is reported as a success, from the requests posted before; the payload
  the block for one field sends; the two counters of lines 716 to 722.
\<close>

definition accepted :: "world \<Rightarrow> bool \<Rightarrow> downlink list \<Rightarrow> downlink \<Rightarrow> bool" where
  "accepted w dry before d =
     (configured w \<and> (dry \<or> requests_post w before d \<in> {Status 200, Status 201, Status 202}))"

definition field_payload :: "builtins \<Rightarrow> bool \<Rightarrow> pyval \<Rightarrow> bool \<Rightarrow> exn + string option" where
  "field_payload py is_min t is_query =
     (if is_query then Inr (Some (get_query_payload is_min))
      else temperature_to_hex_payload py t is_min)"

definition count_empty :: "pyval \<Rightarrow> pyval \<Rightarrow> stats \<Rightarrow> stats" where
  "count_empty tmin tmax st =
     st\<lparr>skipped_empty_min_temp := skipped_empty_min_temp st + of_bool (tmin = PNone),
        skipped_empty_max_temp := skipped_empty_max_temp st + of_bool (tmax = PNone)\<rparr>"

subsection \<open>Counting the devices of a run\<close>

text \<open>
  The devices the loop can reach are those of the assets with a desired setpoint;
  \<open>cap\<close> is the limit that is in force (\<^verbatim>\<open>args.limit\<close> when it is not 0). A device
  or an asset is well formed when no step of \<^verbatim>\<open>main\<close> and \<^verbatim>\<open>extract_deveui\<close> raises
  on it: the \<^verbatim>\<open>id\<close> is a dictionary (or missing), the name is a string (or missing),
  so that a row of the log can be written, the label of a device is a string (or
  missing), and the payload of each desired value is built or refused without an
  \<^verbatim>\<open>OverflowError\<close>.
\<close>

definition with_temps :: "asset_in \<Rightarrow> bool" where
  "with_temps x = (\<not> (minTemp x = PNone \<and> maxTemp x = PNone))"

definition available :: "asset_in list \<Rightarrow> nat" where
  "available xs = sum_list (map (\<lambda>x. length (devices x)) (filter with_temps xs))"

definition cap :: "args \<Rightarrow> nat option" where
  "cap a = (case limit a of None \<Rightarrow> None | Some n \<Rightarrow> if n = 0 then None else Some (nat n))"

definition capped :: "nat option \<Rightarrow> nat \<Rightarrow> nat \<Rightarrow> nat" where
  "capped c n k = (case c of None \<Rightarrow> k | Some l \<Rightarrow> min k (l - n))"

definition well_formed_device :: "builtins \<Rightarrow> device_in \<Rightarrow> bool" where
  "well_formed_device py d =
     (\<not> isl (entity_id (device d)) \<and>
      row_error py (dict_get (device d) ''name'' (PStr ''Unbekannt'')) = None \<and>
      \<not> isl (get_stripped (device d) ''name'') \<and>
      \<not> isl (get_stripped (device d) ''label''))"

definition well_formed_asset :: "builtins \<Rightarrow> asset_in \<Rightarrow> bool" where
  "well_formed_asset py x =
     (\<not> isl (entity_id (asset x)) \<and>
      row_error py (dict_get (asset x) ''name'' (PStr ''Unbekannt'')) = None \<and>
      \<not> isl (temperature_to_hex_payload py (minTemp x) True) \<and>
      \<not> isl (temperature_to_hex_payload py (maxTemp x) False) \<and>
      list_all (well_formed_device py) (devices x))"

definition sample_device :: "string \<Rightarrow> pyval \<Rightarrow> pyval \<Rightarrow> device_in" where
  "sample_device name kmin kmax =
     \<lparr>device = [(''id'', PDict [(''entityType'', PStr ''DEVICE''), (''id'', PStr name)]),
                (''name'', PStr name), (''type'', PStr ''dnt-LW-eTRV'')],
      attributes_reply = RequestFailed, manu_temp_min = kmin, manu_temp_max = kmax\<rparr>"

definition sample_asset :: "string \<Rightarrow> pyval \<Rightarrow> pyval \<Rightarrow> device_in list \<Rightarrow> asset_in" where
  "sample_asset name tmin tmax ds =
     \<lparr>asset = [(''id'', PDict [(''entityType'', PStr ''ASSET''), (''id'', PStr name)]),
               (''name'', PStr name)],
      minTemp = tmin, maxTemp = tmax, devices = ds\<rparr>"

text \<open>An asset whose registry object has \<^verbatim>\<open>"name": null\<close>.\<close>

definition null_name_asset :: "pyval \<Rightarrow> pyval \<Rightarrow> device_in list \<Rightarrow> asset_in" where
  "null_name_asset tmin tmax ds =
     \<lparr>asset = [(''id'', PDict [(''entityType'', PStr ''ASSET''), (''id'', PStr ''a1'')]),
               (''name'', PNone)],
      minTemp = tmin, maxTemp = tmax, devices = ds\<rparr>"

definition sample_assets :: "asset_in list" where
  "sample_assets =
     [sample_asset ''Room 1'' (PInt 20) (PInt 25) [sample_device ''AABBCCDD11223344'' PNone PNone],
      sample_asset ''Room 2'' PNone PNone [sample_device ''AABBCCDD11223355'' PNone PNone],
      sample_asset ''Room 3'' (PInt 20) (PInt 25)
        [sample_device ''AABBCCDD11223366'' (PInt 20) (PInt 25),
         sample_device ''no identifier'' PNone PNone]]"

subsection \<open>The candidates of the extraction\<close>

text \<open>
  The values \<^verbatim>\<open>extract_deveui\<close> hands to the normaliser, in order: the values of the
  attributes whose key is \<open>deveui\<close> or \<open>eui\<close> in any case (up to the first attribute
  whose key is not a string, where the bare \<^verbatim>\<open>except\<close> ends the loop), the name, the
  label, and the values of the additional-info keys in \<open>ks\<close>. \<open>spec_info_keys\<close> are the
  four case variants the specification speaks of.
\<close>

fun first_some :: "('a \<Rightarrow> 'b option) \<Rightarrow> 'a list \<Rightarrow> 'b option" where
  "first_some f [] = None"
| "first_some f (x # xs) = (case f x of Some y \<Rightarrow> Some y | None \<Rightarrow> first_some f xs)"

fun attribute_candidates :: "pyval list \<Rightarrow> pyval list" where
  "attribute_candidates [] = []"
| "attribute_candidates (attr # rest) =
     (case attr of
        PDict m \<Rightarrow>
          (case map_of m ''key'' of
             None \<Rightarrow> attribute_candidates rest
           | Some (PStr k) \<Rightarrow>
               (if lower k = ''deveui'' \<or> lower k = ''eui'' then [dict_get m ''value'' PNone]
                else []) @ attribute_candidates rest
           | Some _ \<Rightarrow> [])
      | _ \<Rightarrow> attribute_candidates rest)"

definition reply_candidates :: "reply \<Rightarrow> pyval list" where
  "reply_candidates r =
     (case r of
        Reply code (Some (PList all_attrs)) \<Rightarrow>
          if code = 200 then attribute_candidates all_attrs else []
      | _ \<Rightarrow> [])"

definition field_candidates :: "string \<Rightarrow> pyval list" where
  "field_candidates s = (if s = [] then [] else [PStr s])"

definition info_candidates :: "string list \<Rightarrow> pydict \<Rightarrow> pyval list" where
  "info_candidates ks dev =
     (case dict_get dev ''additionalInfo'' (PDict []) of
        PDict info \<Rightarrow> List.map_filter (map_of info) ks
      | _ \<Rightarrow> [])"

definition candidates :: "string list \<Rightarrow> reply \<Rightarrow> pydict \<Rightarrow> string \<Rightarrow> string \<Rightarrow> pyval list" where
  "candidates ks r dev name label =
     reply_candidates r @ field_candidates name @ field_candidates label @
     info_candidates ks dev"

definition spec_info_keys :: "string list" where
  "spec_info_keys = [''devEUI'', ''devEui'', ''DevEUI'', ''DevEui'']"

definition info_device :: "string \<Rightarrow> pydict" where
  "info_device key =
     [(''id'', PDict [(''entityType'', PStr ''DEVICE''), (''id'', PStr ''4f1c'')]),
      (''name'', PStr ''Thermostat''),
      (''additionalInfo'', PDict [(key, PStr ''AABBCCDD11223344'')])]"

definition labelled_device :: pydict where
  "labelled_device =
     [(''id'', PDict [(''entityType'', PStr ''DEVICE''), (''id'', PStr ''4f1c'')]),
      (''name'', PStr ''Thermostat''),
      (''label'', PStr ''aa:bb:cc:dd:11:22:33:55''),
      (''additionalInfo'', PDict [(''devEUI'', PStr ''AABBCCDD11223366'')])]"

definition sample_reply :: reply where
  "sample_reply =
     Reply 200 (Some (PList
       [PDict [(''key'', PStr ''active''), (''value'', PBool True)],
        PDict [(''key'', PStr ''DevEUI''), (''value'', PStr ''eui-aabbccdd11223344'')]]))"

subsection \<open>The normaliser in the words of the specification\<close>

text \<open>
  The specification has the normaliser upper-case the input, strip a prefix \<open>EUI-\<close> or
  \<open>EUI_\<close>, strip every space, hyphen and colon, and accept 16 hexadecimal characters.
\<close>

definition after_prefix :: "string \<Rightarrow> string" where
  "after_prefix u = (if prefix ''EUI-'' u \<or> prefix ''EUI_'' u then drop 4 u else u)"

definition normalize_spec :: "string \<Rightarrow> string option" where
  "normalize_spec raw =
     (if raw = [] then None
      else
        let c = filter (\<lambda>x. x \<notin> set '' -:'') (after_prefix (upper raw))
        in if is_hex16 c then Some c else None)"

section \<open>Properties\<close>

subsection \<open>The sender\<close>

lemma snd_send:
  "snd (send_downlink_to_agility w deveui fp p dry st) =
     st\<lparr>calls := calls st @ [(deveui, fp, p)],
        posts := (if configured w \<and> \<not> dry then posts st @ [(deveui, fp, p)] else posts st)\<rparr>"
  by (simp add: send_downlink_to_agility_def Let_def split: response.split)

lemma fst_send_posts:
  "posts s = posts t \<Longrightarrow>
   fst (send_downlink_to_agility w deveui fp p dry s) =
   fst (send_downlink_to_agility w deveui fp p dry t)"
  by (simp add: send_downlink_to_agility_def Let_def split: response.split)

lemma fst_send_world_status:
  "fst (send_downlink_to_agility (world_status code) deveui fp p False st) =
     (code = 200 \<or> code = 201 \<or> code = 202)"
  by (simp add: send_downlink_to_agility_def world_status_def configured_def Let_def)

lemma fst_send:
  "fst (send_downlink_to_agility w deveui fp p dry st) = accepted w dry (posts st) (deveui, fp, p)"
  by (simp add: send_downlink_to_agility_def accepted_def Let_def split: response.split)

text \<open>
  C8, as the code has it. With the endpoint configured, a dry run reports success and
  hands nothing to the transport; a live send hands the transport one request and
  reports success exactly when the answer is status 200, 201 or 202. Without the
  endpoint every send reports failure and the transport is not used.
\<close>

theorem C8_send:
  "(configured w \<longrightarrow>
      send_downlink_to_agility w deveui fp p True st =
        (True, st\<lparr>calls := calls st @ [(deveui, fp, p)]\<rparr>) \<and>
      posts (snd (send_downlink_to_agility w deveui fp p False st)) =
        posts st @ [(deveui, fp, p)] \<and>
      fst (send_downlink_to_agility w deveui fp p False st) =
        (requests_post w (posts st) (deveui, fp, p) \<in> {Status 200, Status 201, Status 202})) \<and>
   (\<not> configured w \<longrightarrow>
      send_downlink_to_agility w deveui fp p dry st =
        (False, st\<lparr>calls := calls st @ [(deveui, fp, p)]\<rparr>))"
  by (simp add: send_downlink_to_agility_def Let_def split: response.split)

theorem C8_witness:
  "configured (world_status 201) \<and>
   send_downlink_to_agility (world_status 201) ''AABBCCDD11223344'' 10 ''BDBF'' True stats0 =
     (True, stats0\<lparr>calls := [(''AABBCCDD11223344'', 10, ''BDBF'')]\<rparr>) \<and>
   posts (snd (send_downlink_to_agility (world_status 201) ''AABBCCDD11223344'' 10 ''BDBF''
                 False stats0)) = [(''AABBCCDD11223344'', 10, ''BDBF'')] \<and>
   fst (send_downlink_to_agility (world_status 201) ''AABBCCDD11223344'' 10 ''BDBF'' False stats0) \<and>
   \<not> configured \<lparr>AGILITY_URL = None, requests_post = (\<lambda>before d. Status 200)\<rparr> \<and>
   \<not> fst (send_downlink_to_agility \<lparr>AGILITY_URL = None, requests_post = (\<lambda>before d. Status 200)\<rparr>
            ''AABBCCDD11223344'' 10 ''BDBF'' True stats0)"
  using C8_send [of "world_status 201" "''AABBCCDD11223344''" 10 "''BDBF''" stats0]
    C8_send [of "\<lparr>AGILITY_URL = None, requests_post = (\<lambda>before d. Status 200)\<rparr>"
      "''AABBCCDD11223344''" 10 "''BDBF''" stats0 True]
  by (simp add: world_status_def configured_def stats0_def)

text \<open>
  C8 as the specification states it fails: status 204 is a 2xx status, and the send
  reports failure.
\<close>

theorem C8_counterexample:
  "\<not> fst (send_downlink_to_agility (world_status 204) ''AABBCCDD11223344'' 10 ''BDBF''
           False stats0)"
  by (simp add: fst_send_world_status)

subsection \<open>The DevEUI normaliser\<close>

lemma replace_empty_absent: "\<not> set old \<subseteq> set s \<Longrightarrow> replace_empty old s = s"
proof (induction old s rule: replace_empty.induct)
  case (1 old)
  then show ?case by simp
next
  case (2 old c cs)
  have np: "\<not> prefix old (c # cs)"
  proof
    assume "prefix old (c # cs)"
    then have "set old \<subseteq> set (c # cs)" by (rule set_mono_prefix)
    with "2.prems" show False by simp
  qed
  have "\<not> set old \<subseteq> set cs" using "2.prems" by auto
  with "2.IH"(2) np show ?case by simp
qed

lemma set_replace_empty: "set (replace_empty old s) \<subseteq> set s"
proof (induction old s rule: replace_empty.induct)
  case (1 old)
  then show ?case by simp
next
  case (2 old c cs)
  show ?case
  proof (cases "old \<noteq> [] \<and> prefix old (c # cs)")
    case True
    with "2.IH"(1) have "set (replace_empty old (c # cs)) \<subseteq> set (drop (length old) (c # cs))"
      by simp
    also have "\<dots> \<subseteq> set (c # cs)" by (rule set_drop_subset)
    finally show ?thesis .
  next
    case False
    with "2.IH"(2) show ?thesis by auto
  qed
qed

lemma replace_empty_single: "replace_empty [x] s = filter (\<lambda>c. c \<noteq> x) s"
  by (induction s) auto

lemma of_char_upper_char:
  "(of_char (upper_char c) :: nat) =
     (if 97 \<le> (of_char c :: nat) \<and> (of_char c :: nat) \<le> 122 then of_char c - 32 else of_char c)"
proof -
  have "(of_char c - 32 :: nat) mod 256 = of_char c - 32" if "(of_char c :: nat) \<le> 122"
    using that by (intro mod_less) arith
  then show ?thesis by (auto simp: upper_char_def Let_def)
qed

lemma upper_char_not_e: "upper_char c \<noteq> CHR ''e''"
proof
  assume "upper_char c = CHR ''e''"
  then have "(of_char (upper_char c) :: nat) = 101" by simp
  then show False by (simp add: of_char_upper_char split: if_splits)
qed

lemma e_notin_upper: "CHR ''e'' \<notin> set (upper s)"
proof
  assume "CHR ''e'' \<in> set (upper s)"
  then obtain x where "upper_char x = CHR ''e''" by (auto simp: upper_def)
  with upper_char_not_e show False by blast
qed

lemma separators_filter:
  "replace_empty '':'' (replace_empty ''-'' (replace_empty '' '' xs)) =
     filter (\<lambda>x. x \<notin> set '' -:'') xs"
  by (induction xs) (auto simp: replace_empty_single)

lemma lower_pattern_absent:
  assumes "CHR ''e'' \<in> set old" and "set s \<subseteq> set (upper t)"
  shows "replace_empty old s = s"
proof (rule replace_empty_absent)
  have "CHR ''e'' \<notin> set s" using assms(2) e_notin_upper by blast
  with assms(1) show "\<not> set old \<subseteq> set s" by blast
qed

lemma normalize_closed_form:
  "normalize_deveui py (PStr raw) =
     (let c = filter (\<lambda>x. x \<notin> set '' -:'')
                (replace_empty ''EUI_'' (replace_empty ''EUI-'' (upper (strip raw))))
      in if is_hex16 c then Some c else None)"
proof -
  let ?u = "upper (strip raw)"
  let ?a = "replace_empty ''EUI-'' ?u"
  let ?b = "replace_empty ''EUI_'' ?a"
  have a: "replace_empty ''eui-'' ?a = ?a"
    by (rule lower_pattern_absent [where t = "strip raw"]) (simp_all add: set_replace_empty)
  have "set ?b \<subseteq> set ?a" by (rule set_replace_empty)
  also have "\<dots> \<subseteq> set ?u" by (rule set_replace_empty)
  finally have b: "replace_empty ''eui_'' ?b = ?b"
    by (intro lower_pattern_absent [where t = "strip raw"]) simp_all
  have e: "strip [] = []" by (simp add: strip_def)
  show ?thesis
  proof (cases "raw = []")
    case True
    then show ?thesis by (simp add: normalize_deveui_def e upper_def is_hex16_def)
  next
    case False
    then have "normalize_deveui py (PStr raw) =
       (let d3 = replace_empty '':'' (replace_empty ''-'' (replace_empty '' '' ?b))
        in if is_hex16 d3 then Some d3 else None)"
      by (simp add: normalize_deveui_def py_str_def a b Let_def del: replace_empty.simps)
    then show ?thesis by (simp only: separators_filter)
  qed
qed

lemma replace_empty_no_sublist: "\<not> sublist old s \<Longrightarrow> replace_empty old s = s"
proof (induction old s rule: replace_empty.induct)
  case (1 old)
  then show ?case by simp
next
  case (2 old c cs)
  from "2.prems" have np: "\<not> prefix old (c # cs)" and ns: "\<not> sublist old cs"
    by (auto simp: sublist_Cons_right)
  with "2.IH"(2) show ?case by simp
qed

lemma remove_prefixes:
  assumes "\<not> sublist ''EUI-'' (after_prefix u)" and "\<not> sublist ''EUI_'' (after_prefix u)"
  shows "replace_empty ''EUI_'' (replace_empty ''EUI-'' u) = after_prefix u"
proof -
  let ?b = "after_prefix u"
  note r = replace_empty_no_sublist [OF assms(1)] replace_empty_no_sublist [OF assms(2)]
  consider (a) "prefix ''EUI-'' u" | (b) "\<not> prefix ''EUI-'' u" "prefix ''EUI_'' u"
    | (c) "\<not> prefix ''EUI-'' u" "\<not> prefix ''EUI_'' u" by blast
  then show ?thesis
  proof cases
    case a
    then obtain t where u: "u = ''EUI-'' @ t" by (auto simp: prefix_def)
    then have "?b = t" by (simp add: after_prefix_def)
    with r u show ?thesis by simp
  next
    case b
    then obtain t where u: "u = ''EUI_'' @ t" by (auto simp: prefix_def)
    then have "?b = t" by (simp add: after_prefix_def)
    with r u show ?thesis by simp
  next
    case c
    then have "?b = u" by (simp add: after_prefix_def)
    with r show ?thesis by simp
  qed
qed

text \<open>
  C6, as the code has it. The empty string and \<^verbatim>\<open>None\<close> are invalid. For a string
  in which \<open>EUI-\<close> and \<open>EUI_\<close> (in any case of the letters) stand at the start only, the
  normaliser is the normaliser of the specification applied to the string without the
  white space around it: it upper-cases, strips the prefix and every space, hyphen and
  colon, and returns what is left exactly when that is 16 hexadecimal characters.
\<close>

theorem C6_normalize:
  assumes "\<not> sublist ''EUI-'' (after_prefix (upper (strip raw)))"
    and "\<not> sublist ''EUI_'' (after_prefix (upper (strip raw)))"
  shows "normalize_deveui py (PStr raw) = normalize_spec (strip raw) \<and>
     normalize_deveui py (PStr []) = None \<and> normalize_deveui py PNone = None"
proof -
  have e: "upper [] = []" "after_prefix [] = []" by (simp_all add: upper_def after_prefix_def)
  have "normalize_deveui py (PStr raw) = normalize_spec (strip raw)"
    by (cases "strip raw = []")
       (simp_all add: normalize_closed_form remove_prefixes [OF assms] normalize_spec_def e
          is_hex16_def)
  then show ?thesis by (simp add: normalize_deveui_def)
qed

theorem C6_witness:
  "normalize_deveui no_builtins (PStr ''EUI-aabbccdd11223344'') = Some ''AABBCCDD11223344'' \<and>
   normalize_deveui no_builtins (PStr ''short123'') = None \<and>
   normalize_deveui no_builtins (PStr ('' eui_AA-bb:cc dd 11 22 33 44'' @ [CHR 0x0A])) =
     Some ''AABBCCDD11223344''"
proof -
  have h: "\<not> sublist ''EUI-'' (after_prefix (upper (strip ''EUI-aabbccdd11223344'')))"
    "\<not> sublist ''EUI_'' (after_prefix (upper (strip ''EUI-aabbccdd11223344'')))"
    "\<not> sublist ''EUI-'' (after_prefix (upper (strip ''short123'')))"
    "\<not> sublist ''EUI_'' (after_prefix (upper (strip ''short123'')))"
    "\<not> sublist ''EUI-''
        (after_prefix (upper (strip ('' eui_AA-bb:cc dd 11 22 33 44'' @ [CHR 0x0A]))))"
    "\<not> sublist ''EUI_''
        (after_prefix (upper (strip ('' eui_AA-bb:cc dd 11 22 33 44'' @ [CHR 0x0A]))))"
    by code_simp+
  have s: "normalize_spec (strip ''EUI-aabbccdd11223344'') = Some ''AABBCCDD11223344''"
    "normalize_spec (strip ''short123'') = None"
    "normalize_spec (strip ('' eui_AA-bb:cc dd 11 22 33 44'' @ [CHR 0x0A])) =
       Some ''AABBCCDD11223344''"
    by code_simp+
  show ?thesis
    using C6_normalize [OF h(1,2), of no_builtins] C6_normalize [OF h(3,4), of no_builtins]
      C6_normalize [OF h(5,6), of no_builtins]
    by (simp only: s simp_thms)
qed

text \<open>
  C6 as the specification states it fails: the code trims a trailing line feed, which is
  neither a space, a hyphen nor a colon, and it removes \<open>EUI-\<close> in the middle of a string
  too; in both cases it accepts a string the words of the specification reject.
\<close>

theorem C6_counterexample:
  "normalize_spec (''AABBCCDD11223344'' @ [CHR 0x0A]) = None \<and>
   normalize_deveui no_builtins (PStr (''AABBCCDD11223344'' @ [CHR 0x0A])) =
     Some ''AABBCCDD11223344'' \<and>
   normalize_spec ''AABBCCDDEUI-11223344'' = None \<and>
   normalize_deveui no_builtins (PStr ''AABBCCDDEUI-11223344'') = Some ''AABBCCDD11223344''"
  by code_simp

subsection \<open>DevEUI extraction\<close>

lemma first_some_append:
  "first_some f (xs @ ys) = (case first_some f xs of Some y \<Rightarrow> Some y | None \<Rightarrow> first_some f ys)"
  by (induction xs) (auto split: option.splits)

lemma scan_attrs_first_some:
  "(case scan_attrs py attrs of Some res \<Rightarrow> res | None \<Rightarrow> None) =
     first_some (normalize_deveui py) (attribute_candidates attrs)"
  by (induction py attrs rule: scan_attrs.induct)
     (auto split: pyval.splits option.splits)

lemma from_attributes_first_some:
  "from_attributes py r = first_some (normalize_deveui py) (reply_candidates r)"
  by (auto simp: from_attributes_def reply_candidates_def scan_attrs_first_some
      split: reply.splits option.splits pyval.splits)

lemma scan_info_first_some:
  "scan_info py info ks = first_some (normalize_deveui py) (List.map_filter (map_of info) ks)"
  by (induction ks) (auto simp: List.map_filter_simps split: option.splits)

lemma from_additional_info_first_some:
  "from_additional_info py dev =
     first_some (normalize_deveui py) (info_candidates additional_info_keys dev)"
  by (auto simp: from_additional_info_def info_candidates_def scan_info_first_some
      split: pyval.splits)

lemma from_field_first_some:
  "from_field py s = first_some (normalize_deveui py) (field_candidates s)"
  by (auto simp: from_field_def field_candidates_def split: option.splits)

text \<open>
  C7, as the code has it. For a device whose \<open>id\<close> is a dictionary or missing and
  whose name and label are strings or missing, the result is the first candidate that
  normalises, in the order attributes, name, label, then the six additional-info keys
  \<open>devEUI\<close>, \<open>devEui\<close>, \<open>DevEUI\<close>, \<open>DevEui\<close>, \<open>deveui\<close>, \<open>eui\<close>, and nothing
  when none does; a failed attribute request contributes no candidate.
\<close>

theorem C7_extract_order:
  assumes "entity_id dev = Inr i"
    and "get_stripped dev ''name'' = Inr name"
    and "get_stripped dev ''label'' = Inr label"
  shows "extract_deveui py r dev =
       Inr (first_some (normalize_deveui py) (candidates additional_info_keys r dev name label)) \<and>
     reply_candidates RequestFailed = [] \<and>
     additional_info_keys = [''devEUI'', ''devEui'', ''DevEUI'', ''DevEui'', ''deveui'', ''eui'']"
  using assms
  by (auto simp: extract_deveui_def candidates_def first_some_append from_attributes_first_some
      from_field_first_some from_additional_info_first_some reply_candidates_def
      additional_info_keys_def split: option.splits)

theorem C7_witness:
  "extract_deveui no_builtins sample_reply labelled_device = Inr (Some ''AABBCCDD11223344'') \<and>
   extract_deveui no_builtins RequestFailed labelled_device = Inr (Some ''AABBCCDD11223355'') \<and>
   extract_deveui no_builtins (Reply 500 None) (info_device ''devEui'') =
     Inr (Some ''AABBCCDD11223344'') \<and>
   extract_deveui no_builtins RequestFailed (info_device ''serial'') = Inr None"
proof -
  have l: "entity_id labelled_device = Inr (PStr ''4f1c'')"
    "get_stripped labelled_device ''name'' = Inr ''Thermostat''"
    "get_stripped labelled_device ''label'' = Inr ''aa:bb:cc:dd:11:22:33:55''"
    by code_simp+
  have i: "\<And>k. entity_id (info_device k) = Inr (PStr ''4f1c'')"
    "\<And>k. get_stripped (info_device k) ''name'' = Inr ''Thermostat''"
    "get_stripped (info_device ''devEui'') ''label'' = Inr []"
    "get_stripped (info_device ''serial'') ''label'' = Inr []"
    by code_simp+
  have c: "first_some (normalize_deveui no_builtins)
       (candidates additional_info_keys sample_reply labelled_device ''Thermostat''
          ''aa:bb:cc:dd:11:22:33:55'') = Some ''AABBCCDD11223344''"
    "first_some (normalize_deveui no_builtins)
       (candidates additional_info_keys RequestFailed labelled_device ''Thermostat''
          ''aa:bb:cc:dd:11:22:33:55'') = Some ''AABBCCDD11223355''"
    "first_some (normalize_deveui no_builtins)
       (candidates additional_info_keys (Reply 500 None) (info_device ''devEui'') ''Thermostat''
          []) = Some ''AABBCCDD11223344''"
    "first_some (normalize_deveui no_builtins)
       (candidates additional_info_keys RequestFailed (info_device ''serial'') ''Thermostat''
          []) = None"
    by code_simp+
  show ?thesis
    using C7_extract_order [OF l, of no_builtins sample_reply]
      C7_extract_order [OF l, of no_builtins RequestFailed]
      C7_extract_order [OF i(1) i(2) i(3), of no_builtins "Reply 500 None"]
      C7_extract_order [OF i(1) i(2) i(4), of no_builtins RequestFailed]
    by (simp add: c)
qed

text \<open>
  C7 as the specification states it, with four case variants of one additional-info
  key, fails: the code also tries \<open>deveui\<close> and \<open>eui\<close>, which are not case variants of
  one key, and finds the identifier under either of them, where the four variants of
  the specification find nothing.
\<close>

theorem C7_counterexample:
  "extract_deveui no_builtins RequestFailed (info_device ''eui'') =
     Inr (Some ''AABBCCDD11223344'') \<and>
   extract_deveui no_builtins RequestFailed (info_device ''deveui'') =
     Inr (Some ''AABBCCDD11223344'') \<and>
   first_some (normalize_deveui no_builtins)
     (candidates spec_info_keys RequestFailed (info_device ''eui'') ''Thermostat'' []) = None \<and>
   first_some (normalize_deveui no_builtins)
     (candidates spec_info_keys RequestFailed (info_device ''deveui'') ''Thermostat'' []) = None"
  by code_simp

subsection \<open>The payload codec\<close>

lemma int_to_float_small: "\<bar>i\<bar> < 2 ^ 53 \<Longrightarrow> int_to_float i = Inr (Finite (of_int i))"
  by (simp add: int_to_float_def)

lemma hex_digits_byte:
  assumes "n < 256"
  shows "hex_digits n =
     (if n < 16 then [hex_digit n] else [hex_digit (n div 16), hex_digit (n mod 16)])"
proof (cases "n < 16")
  case True
  then show ?thesis by (subst hex_digits.simps) simp
next
  case False
  have "n div 16 < 16" using assms by simp
  then have "hex_digits (n div 16) = [hex_digit (n div 16)]"
    by (subst hex_digits.simps) simp
  with False show ?thesis by (subst hex_digits.simps) simp
qed

lemma hex_digit_numeral [simp]:
  "hex_digit 0 = CHR ''0''" "hex_digit 1 = CHR ''1''" "hex_digit 2 = CHR ''2''"
  "hex_digit 3 = CHR ''3''" "hex_digit 4 = CHR ''4''" "hex_digit 5 = CHR ''5''"
  "hex_digit 6 = CHR ''6''" "hex_digit 7 = CHR ''7''" "hex_digit 8 = CHR ''8''"
  "hex_digit 9 = CHR ''9''" "hex_digit 10 = CHR ''A''" "hex_digit 11 = CHR ''B''"
  "hex_digit 12 = CHR ''C''" "hex_digit 13 = CHR ''D''" "hex_digit 14 = CHR ''E''"
  "hex_digit 15 = CHR ''F''" "hex_digit (Suc 0) = CHR ''1''"
  by (simp_all add: hex_digit_def)

lemma below_16:
  "(d::nat) < 16 \<Longrightarrow> d \<in> {0, 1, 2, 3, 4, 5, 6, 7, 8, 9, 10, 11, 12, 13, 14, 15}"
  by (simp only: insert_iff empty_iff) arith

lemma hex_digit_in_set: "hex_digit d \<in> set ''0123456789ABCDEF''"
proof -
  have "d mod 16 < length ''0123456789ABCDEF''" by simp
  then show ?thesis unfolding hex_digit_def by (rule nth_mem)
qed

lemma digit_value_hex_digit:
  assumes "d < 16"
  shows "digit_value (hex_digit d) = d"
  using below_16 [OF assms] by (elim insertE emptyE) (simp_all add: digit_value_def)

lemma hex_value_pair:
  "a < 16 \<Longrightarrow> b < 16 \<Longrightarrow> hex_value [hex_digit a, hex_digit b] = 16 * a + b"
  by (simp add: hex_value_def digit_value_hex_digit)

lemma format_02X_byte:
  assumes "0 \<le> n" and "n < 256"
  shows "format_02X n = [hex_digit (nat n div 16), hex_digit (nat n mod 16)]"
proof -
  have "nat n < 256" using assms by simp
  then show ?thesis
    using assms by (simp add: format_02X_def hex_digits_byte Let_def)
qed

lemma payload_finite_byte:
  assumes f: "py_float py t = Inr (Finite r)"
    and k: "k = (if 0 \<le> r then \<lfloor>2 * r\<rfloor> else \<lceil>2 * r\<rceil>)"
    and lo: "0 \<le> k" and hi: "k < 256"
  shows "temperature_to_hex_payload py t is_min =
     Inr (Some ((if is_min then ''3E'' else ''40'') @
                [hex_digit (nat k div 16), hex_digit (nat k mod 16)]))"
proof -
  have ne: "t \<noteq> PNone" using f by auto
  have "\<bar>2 * r\<bar> < 256"
  proof (cases "0 \<le> r")
    case True
    then have "\<lfloor>2 * r\<rfloor> < 256" using k hi by simp
    then have "2 * r < 256" by (simp add: floor_less_iff)
    with True show ?thesis by simp
  next
    case False
    then have "0 \<le> \<lceil>2 * r\<rceil>" using k lo by simp
    then have "-1 < 2 * r" by (simp add: le_ceiling_iff)
    with False show ?thesis by simp
  qed
  also have "(256::rat) < 2 ^ 1024" by simp
  finally have "times2 (Finite r) = Finite (2 * r)" by simp
  moreover have "py_int (Finite (2 * r)) = Inr k"
    using k by simp
  ultimately show ?thesis
    using ne f lo hi by (simp add: temperature_to_hex_payload_def Let_def format_02X_byte)
qed

lemma floor_twice_of_int: "\<lfloor>2 * (of_int i :: rat)\<rfloor> = 2 * i"
proof -
  have "2 * (of_int i :: rat) = of_int (2 * i)" by simp
  then show ?thesis by (simp only: floor_of_int)
qed

lemma ceiling_twice_of_int: "\<lceil>2 * (of_int i :: rat)\<rceil> = 2 * i"
proof -
  have "2 * (of_int i :: rat) = of_int (2 * i)" by simp
  then show ?thesis by (simp only: ceiling_of_int)
qed

lemma payload_int_byte:
  assumes "0 \<le> i" and "2 * i < 256"
  shows "temperature_to_hex_payload py (PInt i) is_min =
     Inr (Some ((if is_min then ''3E'' else ''40'') @
                [hex_digit (nat (2 * i) div 16), hex_digit (nat (2 * i) mod 16)]))"
proof -
  have "\<bar>i\<bar> < 2 ^ 53" using assms by simp
  then have f: "py_float py (PInt i) = Inr (Finite (of_int i))"
    by (simp add: int_to_float_small)
  have k: "2 * i = (if 0 \<le> (of_int i :: rat) then \<lfloor>2 * (of_int i :: rat)\<rfloor>
               else \<lceil>2 * (of_int i :: rat)\<rceil>)"
    using assms by (simp add: floor_twice_of_int)
  show ?thesis
    using payload_finite_byte [OF f k] assms by simp
qed

lemma payload_20: "temperature_to_hex_payload py (PInt 20) True = Inr (Some ''3E28'')"
  using payload_int_byte [of 20 py True] by simp

lemma payload_25: "temperature_to_hex_payload py (PInt 25) False = Inr (Some ''4032'')"
  using payload_int_byte [of 25 py False] by simp

lemma combine_20_25:
  "combine_temperature_payloads py (PInt 20) (PInt 25) = Inr (Some ''3E284032'')"
  by (simp add: combine_temperature_payloads_def payload_20 payload_25)

text \<open>
  Every integer below \<open>2 ^ 53\<close> in absolute value and every finite float below
  \<open>2 ^ 1023\<close> has a payload.
\<close>

lemma payload_of_number:
  assumes "t = PInt i \<and> \<bar>i\<bar> < 2 ^ 53 \<and> r = of_int i \<or>
           t = PFloat (Finite r) \<and> \<bar>2 * r\<bar> < 2 ^ 1024"
  shows "temperature_to_hex_payload py t is_min =
     Inr (Some ((if is_min then ''3E'' else ''40'') @
                format_02X (if 0 \<le> r then \<lfloor>2 * r\<rfloor> else \<lceil>2 * r\<rceil>)))"
proof -
  have f: "py_float py t = Inr (Finite r)"
    using assms by (auto simp: int_to_float_small)
  have "\<bar>2 * r\<bar> < 2 ^ 1024"
  proof (rule disjE [OF assms])
    assume a: "t = PInt i \<and> \<bar>i\<bar> < 2 ^ 53 \<and> r = of_int i"
    then have "\<bar>2 * r\<bar> = of_int \<bar>2 * i\<bar>" by simp
    also have "\<dots> < of_int (2 ^ 1024)"
    proof -
      have "\<bar>2 * i\<bar> < 2 ^ 54" using a by (simp add: abs_mult)
      also have "(2::int) ^ 54 < 2 ^ 1024" by (rule power_strict_increasing) simp_all
      finally show ?thesis by (simp only: of_int_less_iff)
    qed
    finally show ?thesis by simp
  next
    assume "t = PFloat (Finite r) \<and> \<bar>2 * r\<bar> < 2 ^ 1024"
    then show ?thesis by simp
  qed
  then have "times2 (Finite r) = Finite (2 * r)" by simp
  moreover have "t \<noteq> PNone" using assms by auto
  ultimately show ?thesis
    using f by (simp add: temperature_to_hex_payload_def Let_def)
qed

lemma payload_nonempty:
  "temperature_to_hex_payload py t is_min = Inr (Some p) \<Longrightarrow> p \<noteq> []"
  by (auto simp: temperature_to_hex_payload_def Let_def split: if_splits sum.splits)

lemma combine_nonempty:
  "combine_temperature_payloads py tmin tmax = Inr (Some p) \<Longrightarrow> p \<noteq> []"
  by (cases "temperature_to_hex_payload py tmin True";
      cases "temperature_to_hex_payload py tmax False")
     (auto simp: combine_temperature_payloads_def split: if_splits elim!: truthy_str.elims)

text \<open>
  C5, as the code has it. For a number \<open>t\<close> (an integer, or a float with a finite
  value \<open>r\<close>), with \<open>k\<close> the truncation of \<open>2 * r\<close> and \<open>0 \<le> k \<le> 255\<close>, the payload
  is the prefix (\<open>3E\<close> for the minimum, \<open>40\<close> for the maximum) and the two upper-case
  hexadecimal digits of \<open>k\<close>: four characters.
\<close>

theorem C5_encode_setpoint:
  assumes num: "t = PInt i \<and> r = of_int i \<or> t = PFloat (Finite r)"
    and k: "k = (if 0 \<le> r then \<lfloor>2 * r\<rfloor> else \<lceil>2 * r\<rceil>)"
    and lo: "0 \<le> k" and hi: "k \<le> 255"
  shows "temperature_to_hex_payload py t is_min =
       Inr (Some ((if is_min then ''3E'' else ''40'') @
                  [hex_digit (nat k div 16), hex_digit (nat k mod 16)])) \<and>
     hex_digit (nat k div 16) \<in> set ''0123456789ABCDEF'' \<and>
     hex_digit (nat k mod 16) \<in> set ''0123456789ABCDEF'' \<and>
     hex_value [hex_digit (nat k div 16), hex_digit (nat k mod 16)] = nat k"
proof -
  have f: "py_float py t = Inr (Finite r)"
  proof (rule disjE [OF num])
    assume a: "t = PInt i \<and> r = of_int i"
    then have "k = 2 * i"
      using k by (simp add: floor_twice_of_int ceiling_twice_of_int)
    then have "\<bar>i\<bar> < 2 ^ 53" using lo hi by simp
    then show ?thesis using a by (simp add: int_to_float_small)
  next
    assume "t = PFloat (Finite r)"
    then show ?thesis by simp
  qed
  have hi': "k < 256" using hi by simp
  have d: "nat k div 16 < 16" using lo hi by simp
  have "hex_value [hex_digit (nat k div 16), hex_digit (nat k mod 16)] = nat k"
    using d by (simp add: hex_value_pair)
  with payload_finite_byte [OF f k lo hi', where is_min = is_min]
    hex_digit_in_set [of "nat k div 16"] hex_digit_in_set [of "nat k mod 16"]
  show ?thesis by blast
qed

theorem C5_witness:
  "temperature_to_hex_payload no_builtins (PInt 20) True = Inr (Some ''3E28'') \<and>
   hex_value ''28'' = 40 \<and>
   temperature_to_hex_payload no_builtins (PFloat (Finite 25)) False = Inr (Some ''4032'') \<and>
   hex_value ''32'' = 50"
  using C5_encode_setpoint [of "PInt 20" 20 20 40 no_builtins True]
    C5_encode_setpoint [of "PFloat (Finite 25)" 0 25 50 no_builtins False]
  by simp

text \<open>
  C5 as the specification states it, for every number, fails: twice 128 is 256, which
  has three hexadecimal digits, and the payload has five characters.
\<close>

theorem C5_counterexample:
  "temperature_to_hex_payload no_builtins (PInt 128) True = Inr (Some ''3E100'')"
proof -
  have "hex_digits 256 = ''100''"
    by (simp add: hex_digits.simps [of 256] hex_digits.simps [of 16] hex_digits.simps [of 1])
  then show ?thesis
    by (simp add: temperature_to_hex_payload_def int_to_float_small format_02X_def Let_def)
qed

subsection \<open>The decision for one device\<close>

lemma known_None [simp]: "known PNone = PNone"
  by (simp add: known_def)

lemma known_PInt [simp]: "i \<noteq> 0 \<Longrightarrow> known (PInt i) = PInt i"
  by (simp add: known_def)

text \<open>A row of the log is written exactly when both names are strings.\<close>

lemma log_row_str [simp]: "log_row py (PStr an) (PStr dn) = None"
  by (simp add: log_row_def)

lemma log_row_None_iff:
  "log_row py asset_name device_name = None \<longleftrightarrow>
   (\<exists>an dn. asset_name = PStr an \<and> device_name = PStr dn)"
  by (cases asset_name; cases device_name) (simp_all add: log_row_def)

lemma send_combined_query_eq:
  "send_combined_query py w a an dn deveui st =
     (case log_row py an dn of
        Some e \<Rightarrow> Inl e
      | None \<Rightarrow>
          Inr (let r = send_downlink_to_agility w deveui (fport a) ''BDBF'' (dry_run a) st in
               if fst r
               then (snd r)\<lparr>min_query_sent := min_query_sent st + 1,
                            max_query_sent := max_query_sent st + 1,
                            combined_sent := combined_sent st + 1\<rparr>
               else (snd r)\<lparr>errors := errors st + 1\<rparr>))"
  by (simp add: send_combined_query_def combine_query_payloads_def Let_def split_beta snd_send
      split: option.splits)

lemma send_combined_set_eq:
  assumes "combine_temperature_payloads py tmin tmax = Inr (Some p)"
  shows "send_combined_set py w a an dn deveui tmin tmax st =
     (case log_row py an dn of
        Some e \<Rightarrow> Inl e
      | None \<Rightarrow>
          Inr (let r = send_downlink_to_agility w deveui (fport a) (p @ ''BDBF'') (dry_run a) st in
               if fst r
               then (snd r)\<lparr>min_temp_sent := min_temp_sent st + 1,
                            max_temp_sent := max_temp_sent st + 1,
                            combined_sent := combined_sent st + 1\<rparr>
               else (snd r)\<lparr>errors := errors st + 1\<rparr>))"
  using assms combine_nonempty [OF assms]
  by (simp add: send_combined_set_def combine_query_payloads_def Let_def split_beta snd_send
      split: option.splits)

lemma send_combined_set_None:
  "combine_temperature_payloads py tmin tmax = Inr None \<Longrightarrow>
   send_combined_set py w a an dn deveui tmin tmax st = Inr st"
  by (simp add: send_combined_set_def)

lemma payload_not_a_number:
  "temperature_to_hex_payload py (PFloat NaN) is_min = Inr None"
  "float_of_str py s = None \<Longrightarrow> temperature_to_hex_payload py (PStr s) is_min = Inr None"
  by (simp_all add: temperature_to_hex_payload_def)

lemma send_payload_eq:
  "p \<noteq> [] \<Longrightarrow> send_payload py w a an dn deveui (Some p) st =
     (case log_row py an dn of
        Some e \<Rightarrow> Inl e
      | None \<Rightarrow>
          Inr (let r = send_downlink_to_agility w deveui (fport a) p (dry_run a) st in
               if fst r then snd r else (snd r)\<lparr>errors := errors st + 1\<rparr>))"
  by (simp add: send_payload_def Let_def split_beta snd_send split: option.splits)

lemma send_payload_None [simp]: "send_payload py w a an dn deveui None st = Inr st"
  by (simp add: send_payload_def)

lemma reconcile_both_unknown:
  assumes "asset_min_temp \<noteq> PNone" and "asset_max_temp \<noteq> PNone"
    and "known dmin = PNone" and "known dmax = PNone"
  shows "reconcile py w a an dn deveui asset_min_temp asset_max_temp dmin dmax st =
          send_combined_query py w a an dn deveui st"
  using assms by (simp add: reconcile_def needs_def Let_def)

text \<open>
  Both desired setpoints are there, both known setpoints are unknown (missing, empty or
  zero) and both names are strings: the decision is one call of the sender, with the
  frame \<open>BDBF\<close>. When the send succeeds, the two query counters and the counter of
  combined frames go up by one; the two set counters do not move in either case.
\<close>

lemma combined_query_frame:
  assumes "asset_min_temp \<noteq> PNone" and "asset_max_temp \<noteq> PNone"
    and "known dmin = PNone" and "known dmax = PNone"
    and "log_row py asset_name device_name = None"
  shows "\<exists>st'. reconcile py w a asset_name device_name deveui asset_min_temp asset_max_temp
            dmin dmax st = Inr st' \<and>
     calls st' = calls st @ [(deveui, fport a, ''BDBF'')] \<and>
     min_temp_sent st' = min_temp_sent st \<and> max_temp_sent st' = max_temp_sent st \<and>
     (if fst (send_downlink_to_agility w deveui (fport a) ''BDBF'' (dry_run a) st)
      then min_query_sent st' = min_query_sent st + 1 \<and>
           max_query_sent st' = max_query_sent st + 1 \<and>
           combined_sent st' = combined_sent st + 1 \<and> errors st' = errors st
      else min_query_sent st' = min_query_sent st \<and>
           max_query_sent st' = max_query_sent st \<and>
           combined_sent st' = combined_sent st \<and> errors st' = errors st + 1)"
  using reconcile_both_unknown [OF assms(1-4)] assms(5)
  by (simp add: send_combined_query_eq Let_def snd_send)

lemma combined_query_row_raises:
  assumes "asset_min_temp \<noteq> PNone" and "asset_max_temp \<noteq> PNone"
    and "known dmin = PNone" and "known dmax = PNone"
    and "log_row py asset_name device_name = Some e"
  shows "reconcile py w a asset_name device_name deveui asset_min_temp asset_max_temp
           dmin dmax st = Inl e"
  using reconcile_both_unknown [OF assms(1-4)] assms(5)
  by (simp add: send_combined_query_eq)

text \<open>
  C1 at an asset whose registry object has \<^verbatim>\<open>"name": null\<close>, with the desired setpoints
  20 and 25 and one device that reports no setpoint. \<^verbatim>\<open>asset.get('name', 'Unbekannt')\<close>
  is \<^verbatim>\<open>None\<close> (the default stands in for a missing key only), the row of line 750
  slices it before the send of line 751 and raises \<^verbatim>\<open>TypeError\<close>: the run ends there
  and no frame is dispatched. With the name \<open>Room 1\<close> the same run dispatches the one
  frame \<open>BDBF\<close> and counts it.
\<close>

theorem C1_null_asset_name:
  "reconcile no_builtins (world_status 200) (args_live None) PNone (PStr ''AABBCCDD11223344'')
     ''AABBCCDD11223344'' (PInt 20) (PInt 25) PNone PNone stats0 = Inl TypeError \<and>
   run no_builtins (world_status 200) (args_live None)
     [null_name_asset (PInt 20) (PInt 25) [sample_device ''AABBCCDD11223344'' PNone PNone]] =
     Inl TypeError \<and>
   (case run no_builtins (world_status 200) (args_live None)
           [sample_asset ''Room 1'' (PInt 20) (PInt 25)
              [sample_device ''AABBCCDD11223344'' PNone PNone]] of
      Inl e \<Rightarrow> False
    | Inr st \<Rightarrow>
        calls st = [(''AABBCCDD11223344'', 10, ''BDBF'')] \<and>
        min_query_sent st = 1 \<and> max_query_sent st = 1 \<and> combined_sent st = 1 \<and>
        min_temp_sent st = 0 \<and> max_temp_sent st = 0 \<and> errors st = 0)"
  by code_simp

text \<open>
  C2, as the code has it. Both desired setpoints are there, both known setpoints are
  known, both differ from the desired ones, and both names are strings. When
  \<^verbatim>\<open>combine_temperature_payloads\<close> builds a payload \<open>p\<close>, the decision is one call of the
  sender, with the frame \<open>p\<close> followed by \<open>BDBF\<close>; when it builds none, nothing is sent
  and nothing is counted.
\<close>

theorem C2_combined_set:
  assumes "asset_min_temp \<noteq> PNone" and "asset_max_temp \<noteq> PNone"
    and "known dmin \<noteq> PNone" and "known dmax \<noteq> PNone"
    and "\<not> py_eq (known dmin) asset_min_temp" and "\<not> py_eq (known dmax) asset_max_temp"
    and "log_row py asset_name device_name = None"
  shows
    "(combine_temperature_payloads py asset_min_temp asset_max_temp = Inr (Some p) \<longrightarrow>
        (\<exists>st'. reconcile py w a asset_name device_name deveui asset_min_temp asset_max_temp
                  dmin dmax st = Inr st' \<and>
           calls st' = calls st @ [(deveui, fport a, p @ combine_query_payloads)])) \<and>
     (combine_temperature_payloads py asset_min_temp asset_max_temp = Inr None \<longrightarrow>
        reconcile py w a asset_name device_name deveui asset_min_temp asset_max_temp
          dmin dmax st = Inr st)"
proof -
  have "reconcile py w a asset_name device_name deveui asset_min_temp asset_max_temp dmin dmax st =
          send_combined_set py w a asset_name device_name deveui asset_min_temp asset_max_temp st"
    using assms by (simp add: reconcile_def needs_def Let_def)
  then show ?thesis
    using assms(7)
    by (auto simp: send_combined_set_eq send_combined_set_None Let_def snd_send
        combine_query_payloads_def)
qed

theorem C2_witness:
  "PInt 20 \<noteq> PNone \<and> PInt 25 \<noteq> PNone \<and> known (PInt 18) \<noteq> PNone \<and> known (PInt 24) \<noteq> PNone \<and>
   \<not> py_eq (known (PInt 18)) (PInt 20) \<and> \<not> py_eq (known (PInt 24)) (PInt 25) \<and>
   log_row no_builtins (PStr ''Room 1'') (PStr ''AABBCCDD11223344'') = None \<and>
   combine_temperature_payloads no_builtins (PInt 20) (PInt 25) = Inr (Some ''3E284032'') \<and>
   (\<exists>st'. reconcile no_builtins (world_status 200) (args_live None) (PStr ''Room 1'')
            (PStr ''AABBCCDD11223344'') ''AABBCCDD11223344''
            (PInt 20) (PInt 25) (PInt 18) (PInt 24) stats0 = Inr st' \<and>
      calls st' = [(''AABBCCDD11223344'', 10, ''3E284032BDBF'')])"
  using C2_combined_set [of "PInt 20" "PInt 25" "PInt 18" "PInt 24" no_builtins
      "PStr ''Room 1''" "PStr ''AABBCCDD11223344''" "''3E284032''"
      "world_status 200" "args_live None" "''AABBCCDD11223344''" stats0] combine_20_25
  by (auto simp: args_live_def stats0_def combine_query_payloads_def)

text \<open>
  C2 as the specification states it fails where no payload is built: with the desired
  minimum \<open>abc\<close>, or not a number, the desired maximum 25 and the known setpoints 18 and
  24, \<^verbatim>\<open>combine_temperature_payloads\<close> gives \<^verbatim>\<open>None\<close>, the test \<^verbatim>\<open>if payload:\<close> of line
  762 fails and no frame is dispatched.
\<close>

theorem C2_counterexample:
  "PStr ''abc'' \<noteq> PNone \<and> PFloat NaN \<noteq> PNone \<and> PInt 25 \<noteq> PNone \<and>
   known (PInt 18) \<noteq> PNone \<and> known (PInt 24) \<noteq> PNone \<and>
   \<not> py_eq (known (PInt 18)) (PStr ''abc'') \<and> \<not> py_eq (known (PInt 18)) (PFloat NaN) \<and>
   \<not> py_eq (known (PInt 24)) (PInt 25) \<and>
   reconcile no_builtins (world_status 200) (args_live None) (PStr ''Room 1'')
     (PStr ''AABBCCDD11223344'') ''AABBCCDD11223344''
     (PStr ''abc'') (PInt 25) (PInt 18) (PInt 24) stats0 = Inr stats0 \<and>
   reconcile no_builtins (world_status 200) (args_live None) (PStr ''Room 1'')
     (PStr ''AABBCCDD11223344'') ''AABBCCDD11223344''
     (PFloat NaN) (PInt 25) (PInt 18) (PInt 24) stats0 = Inr stats0 \<and>
   calls stats0 = []"
proof -
  have f: "float_of_str no_builtins ''abc'' = None"
    by (simp add: no_builtins_def)
  show ?thesis
    by (simp add: reconcile_def needs_def Let_def send_combined_set_def
        combine_temperature_payloads_def payload_not_a_number f payload_25 stats0_def)
qed

lemma send_each_mixed_min_query:
  assumes "log_row py an dn = None"
  shows "(temperature_to_hex_payload py tmax False = Inr (Some p) \<longrightarrow>
      (\<exists>st'. send_each py w a an dn deveui tmin tmax True True True False st = Inr st' \<and>
         calls st' = calls st @ [(deveui, fport a, ''BD''), (deveui, fport a, p)] \<and>
         combined_sent st' = combined_sent st)) \<and>
     (temperature_to_hex_payload py tmax False = Inr None \<longrightarrow>
      (\<exists>st'. send_each py w a an dn deveui tmin tmax True True True False st = Inr st' \<and>
         calls st' = calls st @ [(deveui, fport a, ''BD'')] \<and>
         combined_sent st' = combined_sent st \<and> max_temp_sent st' = max_temp_sent st + 1))"
  using assms payload_nonempty [of py tmax False p]
  by (auto simp: send_each_def send_single_def get_query_payload_def send_payload_eq
      count_query_def count_temp_def Let_def snd_send)

lemma send_each_mixed_max_query:
  assumes "log_row py an dn = None"
  shows "(temperature_to_hex_payload py tmin True = Inr (Some p) \<longrightarrow>
      (\<exists>st'. send_each py w a an dn deveui tmin tmax True True False True st = Inr st' \<and>
         calls st' = calls st @ [(deveui, fport a, p), (deveui, fport a, ''BF'')] \<and>
         combined_sent st' = combined_sent st)) \<and>
     (temperature_to_hex_payload py tmin True = Inr None \<longrightarrow>
      (\<exists>st'. send_each py w a an dn deveui tmin tmax True True False True st = Inr st' \<and>
         calls st' = calls st @ [(deveui, fport a, ''BF'')] \<and>
         combined_sent st' = combined_sent st \<and> min_temp_sent st' = min_temp_sent st + 1))"
  using assms payload_nonempty [of py tmin True p]
  by (auto simp: send_each_def send_single_def get_query_payload_def send_payload_eq
      count_query_def count_temp_def Let_def snd_send)

text \<open>
  C3, as the code has it. Both desired setpoints are there, one known setpoint is
  unknown, the other is known and differs, and both names are strings. When the payload
  \<open>p\<close> of the known field is built, the decision is two calls of the sender, the query
  of the unknown field and the setpoint of the other, the minimum first. When no
  payload is built for it, the query is the only call, and the set counter of the
  other field has moved all the same. No combined frame is counted.
\<close>

theorem C3_mixed:
  assumes "asset_min_temp \<noteq> PNone" and "asset_max_temp \<noteq> PNone"
    and "log_row py asset_name device_name = None"
  shows
    "(known dmin = PNone \<and> known dmax \<noteq> PNone \<and> \<not> py_eq (known dmax) asset_max_temp \<longrightarrow>
      (temperature_to_hex_payload py asset_max_temp False = Inr (Some p) \<longrightarrow>
       (\<exists>st'. reconcile py w a asset_name device_name deveui asset_min_temp asset_max_temp
                 dmin dmax st = Inr st' \<and>
          calls st' =
            calls st @ [(deveui, fport a, get_query_payload True), (deveui, fport a, p)] \<and>
          combined_sent st' = combined_sent st)) \<and>
      (temperature_to_hex_payload py asset_max_temp False = Inr None \<longrightarrow>
       (\<exists>st'. reconcile py w a asset_name device_name deveui asset_min_temp asset_max_temp
                 dmin dmax st = Inr st' \<and>
          calls st' = calls st @ [(deveui, fport a, get_query_payload True)] \<and>
          combined_sent st' = combined_sent st \<and>
          max_temp_sent st' = max_temp_sent st + 1))) \<and>
     (known dmin \<noteq> PNone \<and> \<not> py_eq (known dmin) asset_min_temp \<and> known dmax = PNone \<longrightarrow>
      (temperature_to_hex_payload py asset_min_temp True = Inr (Some p) \<longrightarrow>
       (\<exists>st'. reconcile py w a asset_name device_name deveui asset_min_temp asset_max_temp
                 dmin dmax st = Inr st' \<and>
          calls st' =
            calls st @ [(deveui, fport a, p), (deveui, fport a, get_query_payload False)] \<and>
          combined_sent st' = combined_sent st)) \<and>
      (temperature_to_hex_payload py asset_min_temp True = Inr None \<longrightarrow>
       (\<exists>st'. reconcile py w a asset_name device_name deveui asset_min_temp asset_max_temp
                 dmin dmax st = Inr st' \<and>
          calls st' = calls st @ [(deveui, fport a, get_query_payload False)] \<and>
          combined_sent st' = combined_sent st \<and>
          min_temp_sent st' = min_temp_sent st + 1)))"
proof (intro conjI impI)
  assume h: "known dmin = PNone \<and> known dmax \<noteq> PNone \<and> \<not> py_eq (known dmax) asset_max_temp"
    and q: "temperature_to_hex_payload py asset_max_temp False = Inr (Some p)"
  from h have "reconcile py w a asset_name device_name deveui asset_min_temp asset_max_temp
      dmin dmax st =
      send_each py w a asset_name device_name deveui asset_min_temp asset_max_temp
        True True True False st"
    using assms by (simp add: reconcile_def needs_def Let_def)
  with q show "\<exists>st'. reconcile py w a asset_name device_name deveui asset_min_temp
         asset_max_temp dmin dmax st = Inr st' \<and>
       calls st' =
         calls st @ [(deveui, fport a, get_query_payload True), (deveui, fport a, p)] \<and>
       combined_sent st' = combined_sent st"
    using send_each_mixed_min_query [OF assms(3), of asset_max_temp p w a deveui asset_min_temp st]
    by (simp add: get_query_payload_def)
next
  assume h: "known dmin = PNone \<and> known dmax \<noteq> PNone \<and> \<not> py_eq (known dmax) asset_max_temp"
    and q: "temperature_to_hex_payload py asset_max_temp False = Inr None"
  from h have "reconcile py w a asset_name device_name deveui asset_min_temp asset_max_temp
      dmin dmax st =
      send_each py w a asset_name device_name deveui asset_min_temp asset_max_temp
        True True True False st"
    using assms by (simp add: reconcile_def needs_def Let_def)
  with q show "\<exists>st'. reconcile py w a asset_name device_name deveui asset_min_temp
         asset_max_temp dmin dmax st = Inr st' \<and>
       calls st' = calls st @ [(deveui, fport a, get_query_payload True)] \<and>
       combined_sent st' = combined_sent st \<and> max_temp_sent st' = max_temp_sent st + 1"
    using send_each_mixed_min_query [OF assms(3), of asset_max_temp p w a deveui asset_min_temp st]
    by (simp add: get_query_payload_def)
next
  assume h: "known dmin \<noteq> PNone \<and> \<not> py_eq (known dmin) asset_min_temp \<and> known dmax = PNone"
    and q: "temperature_to_hex_payload py asset_min_temp True = Inr (Some p)"
  from h have "reconcile py w a asset_name device_name deveui asset_min_temp asset_max_temp
      dmin dmax st =
      send_each py w a asset_name device_name deveui asset_min_temp asset_max_temp
        True True False True st"
    using assms by (simp add: reconcile_def needs_def Let_def)
  with q show "\<exists>st'. reconcile py w a asset_name device_name deveui asset_min_temp
         asset_max_temp dmin dmax st = Inr st' \<and>
       calls st' =
         calls st @ [(deveui, fport a, p), (deveui, fport a, get_query_payload False)] \<and>
       combined_sent st' = combined_sent st"
    using send_each_mixed_max_query [OF assms(3), of asset_min_temp p w a deveui asset_max_temp st]
    by (simp add: get_query_payload_def)
next
  assume h: "known dmin \<noteq> PNone \<and> \<not> py_eq (known dmin) asset_min_temp \<and> known dmax = PNone"
    and q: "temperature_to_hex_payload py asset_min_temp True = Inr None"
  from h have "reconcile py w a asset_name device_name deveui asset_min_temp asset_max_temp
      dmin dmax st =
      send_each py w a asset_name device_name deveui asset_min_temp asset_max_temp
        True True False True st"
    using assms by (simp add: reconcile_def needs_def Let_def)
  with q show "\<exists>st'. reconcile py w a asset_name device_name deveui asset_min_temp
         asset_max_temp dmin dmax st = Inr st' \<and>
       calls st' = calls st @ [(deveui, fport a, get_query_payload False)] \<and>
       combined_sent st' = combined_sent st \<and> min_temp_sent st' = min_temp_sent st + 1"
    using send_each_mixed_max_query [OF assms(3), of asset_min_temp p w a deveui asset_max_temp st]
    by (simp add: get_query_payload_def)
qed

theorem C3_witness:
  "log_row no_builtins (PStr ''Room 1'') (PStr ''AABBCCDD11223344'') = None \<and>
   (\<exists>st'. reconcile no_builtins (world_status 200) (args_live None) (PStr ''Room 1'')
            (PStr ''AABBCCDD11223344'') ''AABBCCDD11223344''
            (PInt 20) (PInt 25) PNone (PInt 24) stats0 = Inr st' \<and>
      calls st' = [(''AABBCCDD11223344'', 10, ''BD''), (''AABBCCDD11223344'', 10, ''4032'')] \<and>
      combined_sent st' = 0) \<and>
   (\<exists>st'. reconcile no_builtins (world_status 200) (args_live None) (PStr ''Room 1'')
            (PStr ''AABBCCDD11223344'') ''AABBCCDD11223344''
            (PInt 20) (PInt 25) (PInt 18) PNone stats0 = Inr st' \<and>
      calls st' = [(''AABBCCDD11223344'', 10, ''3E28''), (''AABBCCDD11223344'', 10, ''BF'')] \<and>
      combined_sent st' = 0)"
  using C3_mixed [of "PInt 20" "PInt 25" no_builtins "PStr ''Room 1''"
      "PStr ''AABBCCDD11223344''" PNone "PInt 24" "''4032''"
      "world_status 200" "args_live None" "''AABBCCDD11223344''" stats0]
    C3_mixed [of "PInt 20" "PInt 25" no_builtins "PStr ''Room 1''"
      "PStr ''AABBCCDD11223344''" "PInt 18" PNone "''3E28''"
      "world_status 200" "args_live None" "''AABBCCDD11223344''" stats0]
    payload_25 payload_20
  by (auto simp: args_live_def stats0_def get_query_payload_def)

text \<open>
  C3 as the specification states it fails where the payload of the known field is not
  built: with the desired maximum \<open>abc\<close>, the known minimum unknown and the known maximum
  24, \<^verbatim>\<open>temperature_to_hex_payload\<close> gives \<^verbatim>\<open>None\<close>, the test \<^verbatim>\<open>if payload:\<close> of line 811
  fails and the query \<open>BD\<close> is the only frame; \<open>max_temp_sent\<close> has moved all the same.
\<close>

theorem C3_counterexample:
  "PInt 20 \<noteq> PNone \<and> PStr ''abc'' \<noteq> PNone \<and> known PNone = PNone \<and> known (PInt 24) \<noteq> PNone \<and>
   \<not> py_eq (known (PInt 24)) (PStr ''abc'') \<and>
   (case reconcile no_builtins (world_status 200) (args_live None) (PStr ''Room 1'')
           (PStr ''AABBCCDD11223344'') ''AABBCCDD11223344''
           (PInt 20) (PStr ''abc'') PNone (PInt 24) stats0 of
      Inl e \<Rightarrow> False
    | Inr st' \<Rightarrow> calls st' = [(''AABBCCDD11223344'', 10, ''BD'')] \<and> max_temp_sent st' = 1)"
proof -
  have f: "float_of_str no_builtins ''abc'' = None"
    by (simp add: no_builtins_def)
  show ?thesis
    by (simp add: reconcile_def needs_def Let_def send_each_def send_single_def
        send_payload_def get_query_payload_def count_query_def count_temp_def
        payload_not_a_number f split_beta snd_send stats0_def args_live_def)
qed

text \<open>
  C4, as the code has it. When every desired setpoint that is there equals the known
  one, and that known value is neither the empty string nor zero, neither field needs
  anything. With both desired setpoints there, or with both names strings, nothing is
  sent and no send counter moves. With a desired setpoint missing and a name that is
  not a string, the row of line 717 or 721 raises, before anything else is done.
\<close>

theorem C4_satisfied:
  assumes "asset_min_temp = PNone \<or>
           py_eq dmin asset_min_temp \<and> \<not> py_eq dmin (PStr []) \<and> \<not> py_eq dmin (PInt 0)"
    and "asset_max_temp = PNone \<or>
           py_eq dmax asset_max_temp \<and> \<not> py_eq dmax (PStr []) \<and> \<not> py_eq dmax (PInt 0)"
  shows "\<not> needs asset_min_temp (known dmin) \<and> \<not> needs asset_max_temp (known dmax) \<and>
     (asset_min_temp \<noteq> PNone \<and> asset_max_temp \<noteq> PNone \<or>
      log_row py asset_name device_name = None \<longrightarrow>
      (\<exists>st'. reconcile py w a asset_name device_name deveui asset_min_temp asset_max_temp
                dmin dmax st = Inr st' \<and>
         calls st' = calls st \<and> posts st' = posts st \<and>
         min_temp_sent st' = min_temp_sent st \<and> max_temp_sent st' = max_temp_sent st \<and>
         min_query_sent st' = min_query_sent st \<and> max_query_sent st' = max_query_sent st \<and>
         combined_sent st' = combined_sent st \<and> errors st' = errors st)) \<and>
     ((asset_min_temp = PNone \<or> asset_max_temp = PNone) \<and>
      log_row py asset_name device_name = Some e \<longrightarrow>
      reconcile py w a asset_name device_name deveui asset_min_temp asset_max_temp
        dmin dmax st = Inl e)"
proof -
  have nmin: "\<not> needs asset_min_temp (known dmin)"
    using assms(1) by (auto simp: needs_def known_def)
  have nmax: "\<not> needs asset_max_temp (known dmax)"
    using assms(2) by (auto simp: needs_def known_def)
  show ?thesis
    using nmin nmax by (auto simp: reconcile_def send_each_def Let_def)
qed

theorem C4_witness:
  "py_eq (PInt 20) (PInt 20) \<and> \<not> py_eq (PInt 20) (PStr []) \<and> \<not> py_eq (PInt 20) (PInt 0) \<and>
   py_eq (PFloat (Finite 25)) (PInt 25) \<and>
   (\<exists>st'. reconcile no_builtins (world_status 200) (args_live None) (PStr ''Room 1'')
            (PStr ''AABBCCDD11223344'') ''AABBCCDD11223344''
            (PInt 20) (PInt 25) (PInt 20) (PFloat (Finite 25)) stats0 = Inr st' \<and>
      calls st' = [] \<and> posts st' = []) \<and>
   (\<exists>st'. reconcile no_builtins (world_status 200) (args_live None) (PStr ''Room 1'')
            (PStr ''AABBCCDD11223344'') ''AABBCCDD11223344''
            (PInt 20) PNone (PInt 20) PNone stats0 = Inr st' \<and>
      calls st' = [] \<and> posts st' = []) \<and>
   reconcile no_builtins (world_status 200) (args_live None) PNone
     (PStr ''AABBCCDD11223344'') ''AABBCCDD11223344''
     (PInt 20) PNone (PInt 20) PNone stats0 = Inl TypeError"
  using C4_satisfied [of "PInt 20" "PInt 20" "PInt 25" "PFloat (Finite 25)" no_builtins
      "PStr ''Room 1''" "PStr ''AABBCCDD11223344''"
      "world_status 200" "args_live None" "''AABBCCDD11223344''" stats0]
    C4_satisfied [of "PInt 20" "PInt 20" PNone PNone no_builtins
      "PStr ''Room 1''" "PStr ''AABBCCDD11223344''"
      "world_status 200" "args_live None" "''AABBCCDD11223344''" stats0]
    C4_satisfied [of "PInt 20" "PInt 20" PNone PNone no_builtins
      PNone "PStr ''AABBCCDD11223344''"
      "world_status 200" "args_live None" "''AABBCCDD11223344''" stats0 TypeError]
  by (auto simp: stats0_def log_row_def)

text \<open>
  C4 as the specification states it fails for a desired setpoint of zero: the known
  value zero counts as unknown, and the frame \<open>BDBF\<close> is sent again.
\<close>

theorem C4_counterexample:
  "py_eq (PInt 0) (PInt 0) \<and>
   (\<exists>st'. reconcile no_builtins (world_status 200) (args_live None) (PStr ''Room 1'')
            (PStr ''AABBCCDD11223344'') ''AABBCCDD11223344''
            (PInt 0) (PInt 0) (PInt 0) (PInt 0) stats0 = Inr st' \<and>
      calls st' = [(''AABBCCDD11223344'', 10, ''BDBF'')])"
  using reconcile_both_unknown [of "PInt 0" "PInt 0" "PInt 0" "PInt 0" no_builtins
      "world_status 200" "args_live None" "PStr ''Room 1''" "PStr ''AABBCCDD11223344''"
      "''AABBCCDD11223344''" stats0]
  by (simp add: known_def send_combined_query_eq Let_def snd_send fst_send_world_status
      args_live_def stats0_def)

lemma field_payload_nonempty: "field_payload py is_min t q = Inr (Some p) \<Longrightarrow> p \<noteq> []"
  by (auto simp: field_payload_def get_query_payload_def payload_nonempty split: if_splits)

lemma send_single_eq:
  assumes "field_payload py is_min t q = Inr (Some p)"
  shows "send_single py w a an dn deveui is_min t q st =
     (case log_row py an dn of
        Some e \<Rightarrow> Inl e
      | None \<Rightarrow>
     Inr ((if q then count_query is_min st else count_temp is_min st)
            \<lparr>errors := errors st + of_bool (\<not> accepted w (dry_run a) (posts st) (deveui, fport a, p)),
             calls := calls st @ [(deveui, fport a, p)],
             posts := (if configured w \<and> \<not> dry_run a then posts st @ [(deveui, fport a, p)]
                       else posts st)\<rparr>))"
  using assms field_payload_nonempty [OF assms]
  by (auto simp: send_single_def field_payload_def send_payload_eq Let_def snd_send fst_send
      count_query_def count_temp_def split: if_splits option.splits)

lemma send_payload_counters:
  assumes "send_payload py w a an dn deveui pl s = Inr s'"
  shows "min_query_sent s' = min_query_sent s \<and> min_temp_sent s' = min_temp_sent s \<and>
   max_query_sent s' = max_query_sent s \<and> max_temp_sent s' = max_temp_sent s \<and>
   combined_sent s' = combined_sent s \<and> devices_processed s' = devices_processed s"
  using assms
  by (auto simp: send_payload_def split_beta snd_send split: if_splits option.splits)

lemma send_single_counters:
  assumes "send_single py w a an dn deveui is_min t q st = Inr s'"
  shows "min_query_sent s' = min_query_sent st + of_bool (is_min \<and> q) \<and>
     min_temp_sent s' = min_temp_sent st + of_bool (is_min \<and> \<not> q) \<and>
     max_query_sent s' = max_query_sent st + of_bool (\<not> is_min \<and> q) \<and>
     max_temp_sent s' = max_temp_sent st + of_bool (\<not> is_min \<and> \<not> q) \<and>
     combined_sent s' = combined_sent st"
  using assms
  by (auto simp: send_single_def count_query_def count_temp_def
      split: if_splits sum.splits dest!: send_payload_counters)

lemma send_each_counters:
  assumes "send_each py w a an dn deveui tmin tmax nmin nmax qm qx st = Inr s'"
  shows "min_query_sent s' = min_query_sent st + of_bool (nmin \<and> qm) \<and>
     min_temp_sent s' = min_temp_sent st + of_bool (nmin \<and> \<not> qm) \<and>
     max_query_sent s' = max_query_sent st + of_bool (nmax \<and> qx) \<and>
     max_temp_sent s' = max_temp_sent st + of_bool (nmax \<and> \<not> qx) \<and>
     combined_sent s' = combined_sent st"
proof -
  obtain s1 where
    s1: "(if nmin then send_single py w a an dn deveui True tmin qm st else Inr st) = Inr s1"
    and s': "(if nmax then send_single py w a an dn deveui False tmax qx s1 else Inr s1) = Inr s'"
    using assms by (auto simp: send_each_def split: sum.splits)
  have a: "min_query_sent s1 = min_query_sent st + of_bool (nmin \<and> qm) \<and>
     min_temp_sent s1 = min_temp_sent st + of_bool (nmin \<and> \<not> qm) \<and>
     max_query_sent s1 = max_query_sent st \<and> max_temp_sent s1 = max_temp_sent st \<and>
     combined_sent s1 = combined_sent st"
    using s1 send_single_counters [of py w a an dn deveui True tmin qm st s1]
    by (cases nmin) auto
  have b: "min_query_sent s' = min_query_sent s1 \<and> min_temp_sent s' = min_temp_sent s1 \<and>
     max_query_sent s' = max_query_sent s1 + of_bool (nmax \<and> qx) \<and>
     max_temp_sent s' = max_temp_sent s1 + of_bool (nmax \<and> \<not> qx) \<and>
     combined_sent s' = combined_sent s1"
    using s' send_single_counters [of py w a an dn deveui False tmax qx s1 s']
    by (cases nmax) auto
  from a b show ?thesis by simp
qed

lemma send_each_nothing [simp]:
  "send_each py w a an dn deveui tmin tmax False False qm qx st = Inr st"
  by (simp add: send_each_def)

lemma reconcile_paths:
  "reconcile py w a an dn deveui tmin tmax dmin dmax st =
     (case (if tmin = PNone \<or> tmax = PNone then log_row py an dn else None) of
        Some e \<Rightarrow> Inl e
      | None \<Rightarrow>
          (let nmin = needs tmin (known dmin); nmax = needs tmax (known dmax);
               qmin = (known dmin = PNone); qmax = (known dmax = PNone);
               st2 = count_empty tmin tmax st
           in if nmin \<and> nmax \<and> qmin \<and> qmax
              then send_combined_query py w a an dn deveui st2
              else if nmin \<and> nmax \<and> \<not> qmin \<and> \<not> qmax
              then send_combined_set py w a an dn deveui tmin tmax st2
              else send_each py w a an dn deveui tmin tmax nmin nmax
                     (nmin \<and> qmin) (nmax \<and> qmax) st2))"
  by (auto simp: reconcile_def Let_def count_empty_def needs_def split: option.splits)

lemma count_empty_simps [simp]:
  "posts (count_empty tmin tmax st) = posts st"
  "calls (count_empty tmin tmax st) = calls st"
  "errors (count_empty tmin tmax st) = errors st"
  "min_query_sent (count_empty tmin tmax st) = min_query_sent st"
  "max_query_sent (count_empty tmin tmax st) = max_query_sent st"
  "min_temp_sent (count_empty tmin tmax st) = min_temp_sent st"
  "max_temp_sent (count_empty tmin tmax st) = max_temp_sent st"
  "combined_sent (count_empty tmin tmax st) = combined_sent st"
  "devices_processed (count_empty tmin tmax st) = devices_processed st"
  by (simp_all add: count_empty_def)

text \<open>
  C10. With \<open>nmin\<close>, \<open>nmax\<close> for what each field needs and \<open>qmin\<close>, \<open>qmax\<close> for an
  unknown known value: on the paths that send each field on its own, the counter of a
  field moves whatever the send reports (and the counter of combined frames does not),
  and every send that fails adds one to \<open>errors\<close>; in the two combined branches the
  counters of the fields and of combined frames move only when the send succeeds.
\<close>

theorem C10_counter_timing:
  fixes tmin tmax dmin dmax :: pyval and st st' :: stats
  defines "nmin \<equiv> needs tmin (known dmin)" and "nmax \<equiv> needs tmax (known dmax)"
    and "qmin \<equiv> known dmin = PNone" and "qmax \<equiv> known dmax = PNone"
  assumes r: "reconcile py w a asset_name device_name deveui tmin tmax dmin dmax st = Inr st'"
  shows
    "(\<not> (nmin \<and> nmax \<and> qmin = qmax) \<longrightarrow>
        min_query_sent st' = min_query_sent st + of_bool (nmin \<and> qmin) \<and>
        min_temp_sent st' = min_temp_sent st + of_bool (nmin \<and> \<not> qmin) \<and>
        max_query_sent st' = max_query_sent st + of_bool (nmax \<and> qmax) \<and>
        max_temp_sent st' = max_temp_sent st + of_bool (nmax \<and> \<not> qmax) \<and>
        combined_sent st' = combined_sent st) \<and>
     (nmin \<and> \<not> nmax \<and> field_payload py True tmin qmin = Inr (Some p) \<longrightarrow>
        errors st' = errors st +
          of_bool (\<not> fst (send_downlink_to_agility w deveui (fport a) p (dry_run a) st))) \<and>
     (\<not> nmin \<and> nmax \<and> field_payload py False tmax qmax = Inr (Some p') \<longrightarrow>
        errors st' = errors st +
          of_bool (\<not> fst (send_downlink_to_agility w deveui (fport a) p' (dry_run a) st))) \<and>
     (nmin \<and> nmax \<and> qmin \<noteq> qmax \<and> field_payload py True tmin qmin = Inr (Some p) \<and>
      field_payload py False tmax qmax = Inr (Some p') \<longrightarrow>
        errors st' = errors st +
          of_bool (\<not> fst (send_downlink_to_agility w deveui (fport a) p (dry_run a) st)) +
          of_bool (\<not> fst (send_downlink_to_agility w deveui (fport a) p' (dry_run a)
                            (snd (send_downlink_to_agility w deveui (fport a) p (dry_run a) st))))) \<and>
     (nmin \<and> nmax \<and> qmin \<and> qmax \<longrightarrow>
        (let ok = fst (send_downlink_to_agility w deveui (fport a) combine_query_payloads
                         (dry_run a) st)
         in min_query_sent st' = min_query_sent st + of_bool ok \<and>
            max_query_sent st' = max_query_sent st + of_bool ok \<and>
            combined_sent st' = combined_sent st + of_bool ok \<and>
            errors st' = errors st + of_bool (\<not> ok))) \<and>
     (nmin \<and> nmax \<and> \<not> qmin \<and> \<not> qmax \<and>
      combine_temperature_payloads py tmin tmax = Inr (Some p) \<longrightarrow>
        (let ok = fst (send_downlink_to_agility w deveui (fport a) (p @ combine_query_payloads)
                         (dry_run a) st)
         in min_temp_sent st' = min_temp_sent st + of_bool ok \<and>
            max_temp_sent st' = max_temp_sent st + of_bool ok \<and>
            combined_sent st' = combined_sent st + of_bool ok \<and>
            errors st' = errors st + of_bool (\<not> ok)))"
proof -
  let ?st2 = "count_empty tmin tmax st"
  have rows: "(if tmin = PNone \<or> tmax = PNone then log_row py asset_name device_name
               else None) = None"
    using r by (auto simp: reconcile_paths split: option.splits if_splits)
  note paths = r [unfolded reconcile_paths rows option.case Let_def,
      folded nmin_def nmax_def qmin_def qmax_def]
  have single: "\<not> (nmin \<and> nmax \<and> qmin = qmax) \<Longrightarrow>
      send_each py w a asset_name device_name deveui tmin tmax nmin nmax
        (nmin \<and> qmin) (nmax \<and> qmax) ?st2 = Inr st'"
    using paths by (auto split: if_splits)
  have c1: "\<not> (nmin \<and> nmax \<and> qmin = qmax) \<longrightarrow>
        min_query_sent st' = min_query_sent st + of_bool (nmin \<and> qmin) \<and>
        min_temp_sent st' = min_temp_sent st + of_bool (nmin \<and> \<not> qmin) \<and>
        max_query_sent st' = max_query_sent st + of_bool (nmax \<and> qmax) \<and>
        max_temp_sent st' = max_temp_sent st + of_bool (nmax \<and> \<not> qmax) \<and>
        combined_sent st' = combined_sent st"
  proof
    assume "\<not> (nmin \<and> nmax \<and> qmin = qmax)"
    from send_each_counters [OF single [OF this]] show "min_query_sent st' = min_query_sent st + of_bool (nmin \<and> qmin) \<and>
        min_temp_sent st' = min_temp_sent st + of_bool (nmin \<and> \<not> qmin) \<and>
        max_query_sent st' = max_query_sent st + of_bool (nmax \<and> qmax) \<and>
        max_temp_sent st' = max_temp_sent st + of_bool (nmax \<and> \<not> qmax) \<and>
        combined_sent st' = combined_sent st"
      by auto
  qed
  have c2: "nmin \<and> \<not> nmax \<and> field_payload py True tmin qmin = Inr (Some p) \<longrightarrow>
        errors st' = errors st +
          of_bool (\<not> fst (send_downlink_to_agility w deveui (fport a) p (dry_run a) st))"
  proof
    assume h: "nmin \<and> \<not> nmax \<and> field_payload py True tmin qmin = Inr (Some p)"
    then have "send_each py w a asset_name device_name deveui tmin tmax True False qmin False
        ?st2 = Inr st'"
      using single by auto
    then show "errors st' = errors st +
          of_bool (\<not> fst (send_downlink_to_agility w deveui (fport a) p (dry_run a) st))"
      using h by (auto simp: send_each_def send_single_eq fst_send split: option.splits)
  qed
  have c3: "\<not> nmin \<and> nmax \<and> field_payload py False tmax qmax = Inr (Some p') \<longrightarrow>
        errors st' = errors st +
          of_bool (\<not> fst (send_downlink_to_agility w deveui (fport a) p' (dry_run a) st))"
  proof
    assume h: "\<not> nmin \<and> nmax \<and> field_payload py False tmax qmax = Inr (Some p')"
    then have "send_each py w a asset_name device_name deveui tmin tmax False True False qmax
        ?st2 = Inr st'"
      using single by auto
    then show "errors st' = errors st +
          of_bool (\<not> fst (send_downlink_to_agility w deveui (fport a) p' (dry_run a) st))"
      using h by (auto simp: send_each_def send_single_eq fst_send split: option.splits)
  qed
  have c4: "nmin \<and> nmax \<and> qmin \<noteq> qmax \<and> field_payload py True tmin qmin = Inr (Some p) \<and>
      field_payload py False tmax qmax = Inr (Some p') \<longrightarrow>
        errors st' = errors st +
          of_bool (\<not> fst (send_downlink_to_agility w deveui (fport a) p (dry_run a) st)) +
          of_bool (\<not> fst (send_downlink_to_agility w deveui (fport a) p' (dry_run a)
                            (snd (send_downlink_to_agility w deveui (fport a) p (dry_run a) st))))"
  proof
    assume h: "nmin \<and> nmax \<and> qmin \<noteq> qmax \<and> field_payload py True tmin qmin = Inr (Some p) \<and>
      field_payload py False tmax qmax = Inr (Some p')"
    then have "send_each py w a asset_name device_name deveui tmin tmax True True qmin qmax
        ?st2 = Inr st'"
      using single by auto
    then show "errors st' = errors st +
          of_bool (\<not> fst (send_downlink_to_agility w deveui (fport a) p (dry_run a) st)) +
          of_bool (\<not> fst (send_downlink_to_agility w deveui (fport a) p' (dry_run a)
                            (snd (send_downlink_to_agility w deveui (fport a) p (dry_run a) st))))"
      using h
      by (auto simp: send_each_def send_single_eq fst_send snd_send count_query_def
          count_temp_def split: option.splits)
  qed
  have c5: "nmin \<and> nmax \<and> qmin \<and> qmax \<longrightarrow>
        (let ok = fst (send_downlink_to_agility w deveui (fport a) combine_query_payloads
                         (dry_run a) st)
         in min_query_sent st' = min_query_sent st + of_bool ok \<and>
            max_query_sent st' = max_query_sent st + of_bool ok \<and>
            combined_sent st' = combined_sent st + of_bool ok \<and>
            errors st' = errors st + of_bool (\<not> ok))"
  proof
    assume h: "nmin \<and> nmax \<and> qmin \<and> qmax"
    then have "send_combined_query py w a asset_name device_name deveui ?st2 = Inr st'"
      using paths by auto
    then show "(let ok = fst (send_downlink_to_agility w deveui (fport a) combine_query_payloads
                         (dry_run a) st)
         in min_query_sent st' = min_query_sent st + of_bool ok \<and>
            max_query_sent st' = max_query_sent st + of_bool ok \<and>
            combined_sent st' = combined_sent st + of_bool ok \<and>
            errors st' = errors st + of_bool (\<not> ok))"
      by (auto simp: send_combined_query_eq Let_def fst_send snd_send combine_query_payloads_def
          split: option.splits)
  qed
  have c6: "nmin \<and> nmax \<and> \<not> qmin \<and> \<not> qmax \<and>
      combine_temperature_payloads py tmin tmax = Inr (Some p) \<longrightarrow>
        (let ok = fst (send_downlink_to_agility w deveui (fport a) (p @ combine_query_payloads)
                         (dry_run a) st)
         in min_temp_sent st' = min_temp_sent st + of_bool ok \<and>
            max_temp_sent st' = max_temp_sent st + of_bool ok \<and>
            combined_sent st' = combined_sent st + of_bool ok \<and>
            errors st' = errors st + of_bool (\<not> ok))"
  proof
    assume h: "nmin \<and> nmax \<and> \<not> qmin \<and> \<not> qmax \<and>
      combine_temperature_payloads py tmin tmax = Inr (Some p)"
    then have "send_combined_set py w a asset_name device_name deveui tmin tmax ?st2 = Inr st'"
      using paths by auto
    then show "(let ok = fst (send_downlink_to_agility w deveui (fport a) (p @ combine_query_payloads)
                         (dry_run a) st)
         in min_temp_sent st' = min_temp_sent st + of_bool ok \<and>
            max_temp_sent st' = max_temp_sent st + of_bool ok \<and>
            combined_sent st' = combined_sent st + of_bool ok \<and>
            errors st' = errors st + of_bool (\<not> ok))"
      using h
      by (auto simp: send_combined_set_eq Let_def fst_send snd_send combine_query_payloads_def
          split: option.splits)
  qed
  from c1 c2 c3 c4 c5 c6 show ?thesis by blast
qed

lemma field_payload_query [simp]:
  "field_payload py is_min t True = Inr (Some (get_query_payload is_min))"
  by (simp add: field_payload_def)

lemma reconcile_sample_returns:
  "log_row py an dn = None \<Longrightarrow>
   \<exists>st'. reconcile py w a an dn deveui (PInt 20) (PInt 25) dmin dmax st = Inr st'"
  by (simp add: reconcile_paths Let_def send_each_def send_single_def send_payload_def
      payload_20 payload_25 send_combined_set_def send_combined_query_def combine_20_25
      split_beta)

theorem C10_witness:
  "(\<exists>st'. reconcile no_builtins (world_status 500) (args_live None) (PStr ''Room 1'')
            (PStr ''AABBCCDD11223344'') ''AABBCCDD11223344''
            (PInt 20) (PInt 25) PNone (PInt 25) stats0 = Inr st' \<and>
      min_query_sent st' = 1 \<and> errors st' = 1) \<and>
   (\<exists>st'. reconcile no_builtins (world_status 500) (args_live None) (PStr ''Room 1'')
            (PStr ''AABBCCDD11223344'') ''AABBCCDD11223344''
            (PInt 20) (PInt 25) (PInt 20) (PInt 24) stats0 = Inr st' \<and>
      max_temp_sent st' = 1 \<and> errors st' = 1) \<and>
   (\<exists>st'. reconcile no_builtins (world_status 500) (args_live None) (PStr ''Room 1'')
            (PStr ''AABBCCDD11223344'') ''AABBCCDD11223344''
            (PInt 20) (PInt 25) PNone (PInt 24) stats0 = Inr st' \<and>
      min_query_sent st' = 1 \<and> max_temp_sent st' = 1 \<and> combined_sent st' = 0 \<and>
      errors st' = 2) \<and>
   (\<exists>st'. reconcile no_builtins (world_status 500) (args_live None) (PStr ''Room 1'')
            (PStr ''AABBCCDD11223344'') ''AABBCCDD11223344''
            (PInt 20) (PInt 25) PNone PNone stats0 = Inr st' \<and>
      min_query_sent st' = 0 \<and> max_query_sent st' = 0 \<and> combined_sent st' = 0 \<and>
      errors st' = 1) \<and>
   (\<exists>st'. reconcile no_builtins (world_status 500) (args_live None) (PStr ''Room 1'')
            (PStr ''AABBCCDD11223344'') ''AABBCCDD11223344''
            (PInt 20) (PInt 25) (PInt 18) (PInt 24) stats0 = Inr st' \<and>
      min_temp_sent st' = 0 \<and> max_temp_sent st' = 0 \<and> combined_sent st' = 0 \<and>
      errors st' = 1)"
proof (intro conjI)
  let ?rec = "reconcile no_builtins (world_status 500) (args_live None) (PStr ''Room 1'')
            (PStr ''AABBCCDD11223344'') ''AABBCCDD11223344'' (PInt 20) (PInt 25)"
  have fail: "\<And>p s. \<not> fst (send_downlink_to_agility (world_status 500) ''AABBCCDD11223344''
      (fport (args_live None)) p (dry_run (args_live None)) s)"
    by (simp add: args_live_def fst_send_world_status)
  have z: "errors stats0 = 0" "min_query_sent stats0 = 0" "max_query_sent stats0 = 0"
    "min_temp_sent stats0 = 0" "max_temp_sent stats0 = 0" "combined_sent stats0 = 0"
    by (simp_all add: stats0_def)
  have rows: "log_row no_builtins (PStr ''Room 1'') (PStr ''AABBCCDD11223344'') = None"
    by simp
  obtain s1 where r1: "?rec PNone (PInt 25) stats0 = Inr s1"
    using reconcile_sample_returns [OF rows] by blast
  from C10_counter_timing [OF r1, of "''BD''"]
  show "\<exists>st'. ?rec PNone (PInt 25) stats0 = Inr st' \<and> min_query_sent st' = 1 \<and> errors st' = 1"
    using r1 by (simp add: needs_def get_query_payload_def fail z)
  obtain s2 where r2: "?rec (PInt 20) (PInt 24) stats0 = Inr s2"
    using reconcile_sample_returns [OF rows] by blast
  from C10_counter_timing [OF r2, of _ "''4032''"]
  show "\<exists>st'. ?rec (PInt 20) (PInt 24) stats0 = Inr st' \<and> max_temp_sent st' = 1 \<and> errors st' = 1"
    using r2 by (simp add: needs_def field_payload_def payload_25 fail z)
  obtain s3 where r3: "?rec PNone (PInt 24) stats0 = Inr s3"
    using reconcile_sample_returns [OF rows] by blast
  from C10_counter_timing [OF r3, of "''BD''" "''4032''"]
  show "\<exists>st'. ?rec PNone (PInt 24) stats0 = Inr st' \<and> min_query_sent st' = 1 \<and>
      max_temp_sent st' = 1 \<and> combined_sent st' = 0 \<and> errors st' = 2"
    using r3 by (simp add: needs_def field_payload_def get_query_payload_def payload_25 fail z)
  obtain s4 where r4: "?rec PNone PNone stats0 = Inr s4"
    using reconcile_sample_returns [OF rows] by blast
  from C10_counter_timing [OF r4]
  show "\<exists>st'. ?rec PNone PNone stats0 = Inr st' \<and> min_query_sent st' = 0 \<and>
      max_query_sent st' = 0 \<and> combined_sent st' = 0 \<and> errors st' = 1"
    using r4 by (simp add: needs_def fail z)
  obtain s5 where r5: "?rec (PInt 18) (PInt 24) stats0 = Inr s5"
    using reconcile_sample_returns [OF rows] by blast
  from C10_counter_timing [OF r5, of "''3E284032''"]
  show "\<exists>st'. ?rec (PInt 18) (PInt 24) stats0 = Inr st' \<and> min_temp_sent st' = 0 \<and>
      max_temp_sent st' = 0 \<and> combined_sent st' = 0 \<and> errors st' = 1"
    using r5 by (simp add: needs_def combine_20_25 fail z)
qed
subsection \<open>The loop over assets and devices\<close>

lemma capped_add:
  "capped c n k + capped c (n + capped c n k) j = capped c n (k + j)"
  by (auto simp: capped_def min_def split: option.splits)

lemma limit_hit_cap: "limit_hit a n = (case cap a of None \<Rightarrow> False | Some l \<Rightarrow> l \<le> n)"
  by (auto simp: limit_hit_def cap_def split: option.splits)

lemma send_single_devices_processed:
  "send_single py w a an dn deveui is_min t q st = Inr s' \<Longrightarrow>
   devices_processed s' = devices_processed st"
  by (auto simp: send_single_def count_query_def count_temp_def split: if_splits sum.splits
      dest!: send_payload_counters)

lemma send_each_devices_processed:
  "send_each py w a an dn deveui tmin tmax nmin nmax qm qx st = Inr s' \<Longrightarrow>
   devices_processed s' = devices_processed st"
  by (auto simp: send_each_def split: if_splits sum.splits dest!: send_single_devices_processed)

lemma send_combined_query_devices_processed:
  "send_combined_query py w a an dn deveui st = Inr s' \<Longrightarrow>
   devices_processed s' = devices_processed st"
  by (auto simp: send_combined_query_eq Let_def snd_send split: option.splits if_splits)

lemma send_combined_set_devices_processed:
  "send_combined_set py w a an dn deveui tmin tmax st = Inr s' \<Longrightarrow>
   devices_processed s' = devices_processed st"
  by (auto simp: send_combined_set_def Let_def split_beta snd_send
      split: sum.splits if_splits option.splits)

lemma reconcile_devices_processed:
  "reconcile py w a an dn deveui tmin tmax dmin dmax st = Inr s' \<Longrightarrow>
   devices_processed s' = devices_processed st"
  by (auto simp: reconcile_paths Let_def split: if_splits option.splits
      dest!: send_each_devices_processed send_combined_set_devices_processed
        send_combined_query_devices_processed)

lemma process_device_count:
  "process_device py w a an tmin tmax d st = Inr s' \<Longrightarrow>
   devices_processed s' = devices_processed st + 1"
  by (auto simp: process_device_def Let_def split: sum.splits option.splits
      dest!: reconcile_devices_processed)

lemma devices_loop_count:
  "devices_loop py w a an tmin tmax ds n st = Inr (reached, n', st') \<Longrightarrow>
   n' = n + capped (cap a) n (length ds) \<and>
   devices_processed st' = devices_processed st + capped (cap a) n (length ds) \<and>
   (reached \<longrightarrow> (\<exists>l. cap a = Some l \<and> l \<le> n'))"
proof (induction ds arbitrary: n st)
  case Nil
  then show ?case by (simp add: capped_def split: option.splits)
next
  case (Cons d ds)
  show ?case
  proof (cases "limit_hit a n")
    case True
    with Cons.prems show ?thesis
      by (auto simp: limit_hit_cap capped_def split: option.splits)
  next
    case False
    then obtain s1 where p: "process_device py w a an tmin tmax d st = Inr s1"
      and l: "devices_loop py w a an tmin tmax ds (n + 1) s1 = Inr (reached, n', st')"
      using Cons.prems by (auto split: sum.splits)
    from Cons.IH [OF l] process_device_count [OF p] False show ?thesis
      by (auto simp: limit_hit_cap capped_def split: option.splits)
  qed
qed

lemma assets_loop_count:
  "assets_loop py w a xs reached n st = Inr st' \<Longrightarrow>
   (reached \<longrightarrow> (\<exists>l. cap a = Some l \<and> l \<le> n)) \<Longrightarrow>
   devices_processed st' = devices_processed st + capped (cap a) n (available xs)"
proof (induction xs arbitrary: reached n st)
  case Nil
  then show ?case by (simp add: available_def capped_def split: option.splits)
next
  case (Cons x xs)
  show ?case
  proof (cases reached)
    case True
    with Cons.prems show ?thesis by (auto simp: capped_def)
  next
    case False
    note nr = this
    obtain i where i: "entity_id (asset x) = Inr i"
      using Cons.prems(1) nr by (auto split: sum.splits)
    show ?thesis
    proof (cases "with_temps x")
      case False
      then have "assets_loop py w a xs reached n
          (st\<lparr>skipped_no_asset_temp := skipped_no_asset_temp st + 1\<rparr>) = Inr st'"
        using Cons.prems(1) nr i by (simp add: with_temps_def)
      from Cons.IH [OF this Cons.prems(2)] False show ?thesis
        by (simp add: available_def)
    next
      case True
      note wt = this
      let ?st1 = "st\<lparr>assets_processed := assets_processed st + 1\<rparr>"
      show ?thesis
      proof (cases "devices x = []")
        case True
        then have "assets_loop py w a xs reached n ?st1 = Inr st'"
          using Cons.prems(1) nr i wt by (auto simp: with_temps_def Let_def split: if_splits)
        from Cons.IH [OF this Cons.prems(2)] True wt show ?thesis
          by (simp add: available_def)
      next
        case False
        then obtain r1 n1 s2 where
          d: "devices_loop py w a (dict_get (asset x) ''name'' (PStr ''Unbekannt''))
                (minTemp x) (maxTemp x) (devices x) n ?st1 = Inr (r1, n1, s2)"
          and l: "assets_loop py w a xs r1 n1 s2 = Inr st'"
          using Cons.prems(1) nr i wt
          by (auto simp: with_temps_def Let_def split: sum.splits if_splits)
        note c = devices_loop_count [OF d]
        have n1: "n1 = n + capped (cap a) n (length (devices x))"
          using c by blast
        have dp: "devices_processed s2 =
            devices_processed st + capped (cap a) n (length (devices x))"
          using c by simp
        have r1: "r1 \<longrightarrow> (\<exists>l. cap a = Some l \<and> l \<le> n1)"
          using c by blast
        from Cons.IH [OF l r1]
        have "devices_processed st' = devices_processed s2 + capped (cap a) n1 (available xs)" .
        with n1 dp wt capped_add [of "cap a" n "length (devices x)" "available xs"]
        show ?thesis
          by (simp add: available_def)
      qed
    qed
  qed
qed

lemma extract_deveui_returns:
  "well_formed_device py d \<Longrightarrow> \<exists>e. extract_deveui py (attributes_reply d) (device d) = Inr e"
  by (auto simp: well_formed_device_def extract_deveui_def isl_def
      split: sum.splits option.splits)

lemma send_single_returns:
  "log_row py an dn = None \<Longrightarrow> \<not> isl (temperature_to_hex_payload py t is_min) \<Longrightarrow>
   \<exists>s'. send_single py w a an dn deveui is_min t q st = Inr s'"
  by (auto simp: send_single_def send_payload_def isl_def split_beta split: sum.splits)

lemma send_each_returns:
  assumes "log_row py an dn = None"
    and "\<not> isl (temperature_to_hex_payload py tmin True)"
    and "\<not> isl (temperature_to_hex_payload py tmax False)"
  shows "\<exists>s'. send_each py w a an dn deveui tmin tmax nmin nmax qm qx st = Inr s'"
proof -
  obtain s1 where
    "(if nmin then send_single py w a an dn deveui True tmin qm st else Inr st) = Inr s1"
    using send_single_returns [OF assms(1,2), of w a deveui qm st] by (cases nmin) auto
  moreover obtain s2 where
    "(if nmax then send_single py w a an dn deveui False tmax qx s1 else Inr s1) = Inr s2"
    using send_single_returns [OF assms(1,3), of w a deveui qx s1] by (cases nmax) auto
  ultimately show ?thesis by (simp add: send_each_def)
qed

lemma send_combined_set_returns:
  assumes "log_row py an dn = None"
    and "\<not> isl (temperature_to_hex_payload py tmin True)"
    and "\<not> isl (temperature_to_hex_payload py tmax False)"
  shows "\<exists>s'. send_combined_set py w a an dn deveui tmin tmax st = Inr s'"
  using assms
  by (auto simp: send_combined_set_def combine_temperature_payloads_def isl_def Let_def split_beta
      split: sum.splits)

lemma reconcile_returns:
  assumes "log_row py an dn = None"
    and "\<not> isl (temperature_to_hex_payload py tmin True)"
    and "\<not> isl (temperature_to_hex_payload py tmax False)"
  shows "\<exists>s'. reconcile py w a an dn deveui tmin tmax dmin dmax st = Inr s'"
proof -
  have rows: "(if tmin = PNone \<or> tmax = PNone then log_row py an dn else None) = None"
    using assms(1) by simp
  show ?thesis
    unfolding reconcile_paths rows option.case Let_def
    using send_each_returns [OF assms] send_combined_set_returns [OF assms] assms(1)
    by (simp add: send_combined_query_eq)
qed

lemma process_device_returns:
  assumes "well_formed_device py d"
    and "row_error py an = None"
    and "\<not> isl (temperature_to_hex_payload py tmin True)"
    and "\<not> isl (temperature_to_hex_payload py tmax False)"
  shows "\<exists>s'. process_device py w a an tmin tmax d st = Inr s'"
proof -
  obtain i where i: "entity_id (device d) = Inr i"
    using assms(1) by (cases "entity_id (device d)") (auto simp: well_formed_device_def)
  obtain e where e: "extract_deveui py (attributes_reply d) (device d) = Inr e"
    using extract_deveui_returns [OF assms(1)] by blast
  have rows: "log_row py an (dict_get (device d) ''name'' (PStr ''Unbekannt'')) = None"
    using assms(1,2) by (simp add: log_row_def well_formed_device_def)
  show ?thesis
    using i e rows reconcile_returns [OF rows assms(3,4)]
    by (cases e) (simp_all add: process_device_def Let_def)
qed

lemma devices_loop_returns:
  assumes "row_error py an = None"
    and "\<not> isl (temperature_to_hex_payload py tmin True)"
    and "\<not> isl (temperature_to_hex_payload py tmax False)"
  shows "list_all (well_formed_device py) ds \<Longrightarrow>
     \<exists>res. devices_loop py w a an tmin tmax ds n st = Inr res"
proof (induction ds arbitrary: n st)
  case Nil
  show ?case by auto
next
  case (Cons d ds)
  from Cons.prems have "well_formed_device py d" by simp
  from process_device_returns [OF this assms]
  obtain s1 where "process_device py w a an tmin tmax d st = Inr s1" by blast
  with Cons show ?case by auto
qed

lemma assets_loop_returns:
  "list_all (well_formed_asset py) xs \<Longrightarrow> \<exists>st'. assets_loop py w a xs reached n st = Inr st'"
proof (induction xs arbitrary: reached n st)
  case Nil
  then show ?case by simp
next
  case (Cons x xs)
  then have wx: "well_formed_asset py x" and wxs: "list_all (well_formed_asset py) xs"
    by simp_all
  obtain i where i: "entity_id (asset x) = Inr i"
    using wx by (cases "entity_id (asset x)") (auto simp: well_formed_asset_def)
  let ?st1 = "st\<lparr>assets_processed := assets_processed st + 1\<rparr>"
  let ?an = "dict_get (asset x) ''name'' (PStr ''Unbekannt'')"
  obtain r1 n1 s2 where
    d: "devices_loop py w a ?an (minTemp x) (maxTemp x) (devices x) n ?st1 = Inr (r1, n1, s2)"
    using devices_loop_returns [of py ?an "minTemp x" "maxTemp x" "devices x" w a n ?st1] wx
    by (auto simp: well_formed_asset_def)
  show ?case
    using i d Cons.IH [OF wxs] by (simp add: Let_def)
qed

text \<open>
  C9, as the code has it. A run that ends has processed, of the devices under the
  assets that have a desired setpoint, exactly \<open>n\<close> (all of them when there are fewer)
  for a limit \<open>n > 0\<close>, and never one more; without a limit, and with the limit 0, it
  has processed all of them. Where the inner loop meets a device with the limit used
  up it stops, and with \<open>limit_reached\<close> set the outer loop touches no further asset.
  A run over well-formed assets ends.
\<close>

theorem C9_device_limit:
  "(run py w a assets = Inr st \<longrightarrow>
      devices_processed st =
        (case limit a of
           None \<Rightarrow> available assets
         | Some n \<Rightarrow> if n = 0 then available assets else min (nat n) (available assets))) \<and>
   (limit_hit a k \<longrightarrow>
      devices_loop py w a asset_name tmin tmax (d # ds) k st0 = Inr (True, k, st0)) \<and>
   assets_loop py w a xs True k st0 = Inr st0 \<and>
   (list_all (well_formed_asset py) assets \<longrightarrow> (\<exists>st'. run py w a assets = Inr st'))"
proof -
  have "assets_loop py w a xs True k st0 = Inr st0"
    by (cases xs) simp_all
  then show ?thesis
    using assets_loop_count [of py w a assets False 0 stats0 st]
      assets_loop_returns [of py assets w a False 0 stats0]
    by (auto simp: run_def stats0_def capped_def cap_def split: option.splits)
qed

lemma payload_None [simp]: "temperature_to_hex_payload py PNone is_min = Inr None"
  by (simp add: temperature_to_hex_payload_def)

lemma payload_20_25_return:
  "\<not> isl (temperature_to_hex_payload py (PInt 20) is_min)"
  "\<not> isl (temperature_to_hex_payload py (PInt 25) is_min)"
  using payload_int_byte [of 20 py is_min] payload_int_byte [of 25 py is_min] by simp_all

lemma sample_assets_well_formed: "list_all (well_formed_asset py) sample_assets"
  by (simp add: sample_assets_def sample_asset_def sample_device_def well_formed_asset_def
      well_formed_device_def entity_id_def get_stripped_def dict_get_def payload_20_25_return)

lemma available_sample_assets: "available sample_assets = 3"
  by (simp add: available_def sample_assets_def sample_asset_def with_temps_def)

theorem C9_witness:
  "list_all (well_formed_asset no_builtins) sample_assets \<and> available sample_assets = 3 \<and>
   limit_hit (args_live (Some 2)) 2 \<and>
   (\<exists>st. run no_builtins (world_status 200) (args_live (Some 2)) sample_assets = Inr st \<and>
      devices_processed st = 2) \<and>
   (\<exists>st. run no_builtins (world_status 200) (args_live (Some 5)) sample_assets = Inr st \<and>
      devices_processed st = 3)"
proof -
  obtain s2 where r2: "run no_builtins (world_status 200) (args_live (Some 2)) sample_assets = Inr s2"
    using C9_device_limit [of no_builtins "world_status 200" "args_live (Some 2)" sample_assets]
      sample_assets_well_formed by blast
  obtain s5 where r5: "run no_builtins (world_status 200) (args_live (Some 5)) sample_assets = Inr s5"
    using C9_device_limit [of no_builtins "world_status 200" "args_live (Some 5)" sample_assets]
      sample_assets_well_formed by blast
  show ?thesis
    using C9_device_limit [of no_builtins "world_status 200" "args_live (Some 2)" sample_assets s2]
      C9_device_limit [of no_builtins "world_status 200" "args_live (Some 5)" sample_assets s5]
      r2 r5 sample_assets_well_formed [of no_builtins]
    by (simp add: available_sample_assets args_live_def limit_hit_def)
qed

text \<open>
  C9 as the specification states it fails in two places. With the limit 0 the test
  \<^verbatim>\<open>args.limit and ...\<close> reads 0 as no limit, and all three devices of the sample are
  processed. With the limit 1 the loop does not stop after the first device: it visits
  and counts the two assets that follow, and stops at the next device it meets.
\<close>

theorem C9_counterexample:
  "(case run no_builtins (world_status 200) (args_live (Some 0)) sample_assets of
      Inl e \<Rightarrow> False
    | Inr st \<Rightarrow> devices_processed st = 3) \<and>
   (case run no_builtins (world_status 200) (args_live (Some 1)) sample_assets of
      Inl e \<Rightarrow> False
    | Inr st \<Rightarrow> devices_processed st = 1 \<and> assets_processed st = 2 \<and>
               skipped_no_asset_temp st = 1)"
  by code_simp

end
